theory Spec2Isabelle
  imports Complex_Main "HOL-Library.Multiset" "HOL-Library.Product_Lexorder"
begin

section \<open>JavaScript strings\<close>

text \<open>
  A JavaScript string is modelled as a \<^typ>\<open>string\<close> whose characters stand for the
  code units \<open>0\<close> to \<open>255\<close> (ASCII and the Latin-1 supplement, which holds the German
  umlauts the sources mention).  Code units above \<open>255\<close> are outside the model.
\<close>

definition code :: "char \<Rightarrow> nat" where
  "code c = of_char c"

text \<open>The class \<open>\s\<close> of regular expressions, which is also what \<open>trim\<close> strips.\<close>

definition isSpace :: "char \<Rightarrow> bool" where
  "isSpace c = (code c \<in> {9, 10, 11, 12, 13, 32, 160})"

text \<open>The class \<open>\d\<close>.\<close>

definition isDigit :: "char \<Rightarrow> bool" where
  "isDigit c = (48 \<le> code c \<and> code c \<le> 57)"

text \<open>The class \<open>[a-z]\<close>.\<close>

definition isLowerAZ :: "char \<Rightarrow> bool" where
  "isLowerAZ c = (97 \<le> code c \<and> code c \<le> 122)"

text \<open>The class \<open>[A-Z]\<close>.\<close>

definition isUpperAZ :: "char \<Rightarrow> bool" where
  "isUpperAZ c = (65 \<le> code c \<and> code c \<le> 90)"

text \<open>The class \<open>\w\<close>, that is \<open>[A-Za-z0-9_]\<close>.\<close>

definition isWordChar :: "char \<Rightarrow> bool" where
  "isWordChar c = (isUpperAZ c \<or> isLowerAZ c \<or> isDigit c \<or> code c = 95)"

text \<open>
  \<open>toLowerCase\<close> on one code unit: the letters \<open>A-Z\<close> and the Latin-1 capitals
  (\<open>0xC0-0xDE\<close> without the multiplication sign \<open>0xD7\<close>) move by 32.
\<close>

definition lowerChar :: "char \<Rightarrow> char" where
  "lowerChar c =
     (if isUpperAZ c \<or> (192 \<le> code c \<and> code c \<le> 222 \<and> code c \<noteq> 215)
      then char_of (code c + 32) else c)"

text \<open>
  \<open>toUpperCase\<close> on a string of one code unit.  The sharp s (\<open>0xDF\<close>) becomes \<open>SS\<close>.
  The capitals of the micro sign (\<open>0xB5\<close>) and of y with diaeresis (\<open>0xFF\<close>) lie
  outside the modelled range; the model leaves these two characters as they are.
\<close>

definition upperChar :: "char \<Rightarrow> string" where
  "upperChar c =
     (if isLowerAZ c \<or> (224 \<le> code c \<and> code c \<le> 254 \<and> code c \<noteq> 247)
      then [char_of (code c - 32)]
      else if code c = 223 then ''SS''
      else [c])"

definition toLowerCase :: "string \<Rightarrow> string" where
  "toLowerCase s = map lowerChar s"

definition trim :: "string \<Rightarrow> string" where
  "trim s = rev (dropWhile isSpace (rev (dropWhile isSpace s)))"

definition startsWith :: "string \<Rightarrow> string \<Rightarrow> bool" where
  "startsWith s p = (take (length p) s = p)"

definition endsWith :: "string \<Rightarrow> string \<Rightarrow> bool" where
  "endsWith s p = (length p \<le> length s \<and> drop (length s - length p) s = p)"

text \<open>\<open>s.includes(t)\<close>: \<open>t\<close> occurs in \<open>s\<close> as a contiguous substring.\<close>

fun includesStr :: "string \<Rightarrow> string \<Rightarrow> bool" where
  "includesStr [] t = (t = [])"
| "includesStr (c # cs) t = (startsWith (c # cs) t \<or> includesStr cs t)"

text \<open>\<open>s.replace(/^p/, '')\<close> for a literal prefix \<open>p\<close>.\<close>

definition stripPrefix :: "string \<Rightarrow> string \<Rightarrow> string" where
  "stripPrefix p s = (if startsWith s p then drop (length p) s else s)"

text \<open>\<open>s.replace(/[\s\-_.]+/g, '')\<close>: every separator character is removed.\<close>

definition isSeparator :: "char \<Rightarrow> bool" where
  "isSeparator c = (isSpace c \<or> c = CHR ''-'' \<or> c = CHR ''_'' \<or> c = CHR ''.'')"

definition stripSeparators :: "string \<Rightarrow> string" where
  "stripSeparators s = filter (\<lambda>c. \<not> isSeparator c) s"

text \<open>\<open>s.replace(/\s+/g, '')\<close>.\<close>

definition stripSpaces :: "string \<Rightarrow> string" where
  "stripSpaces s = filter (\<lambda>c. \<not> isSpace c) s"

text \<open>\<open>s.split('/')[0]\<close>.\<close>

definition beforeSlash :: "string \<Rightarrow> string" where
  "beforeSlash s = takeWhile (\<lambda>c. c \<noteq> CHR ''/'') s"

section \<open>The vendor check of the Shopify detector\<close>

text \<open>
  Confidence scores are the decimal literals of the source; they are kept as rationals,
  on which the comparisons of the source agree with those on the doubles the literals
  denote.
\<close>

type_synonym confidence = rat

text \<open>
  \<open>fetchProductsJson\<close> is a network call.  Its outcome is a parameter: \<open>None\<close> when the
  endpoint could not be read, and otherwise the vendors of the listed products in the
  order of the result's \<open>vendors\<close> field.
\<close>

record vendor_check =
  found :: bool
  matched_vendor :: "string option"
  vc_confidence :: confidence

definition vendorMiss :: vendor_check where
  "vendorMiss = \<lparr>found = False, matched_vendor = None, vc_confidence = 0\<rparr>"

definition vendorHit :: "string \<Rightarrow> confidence \<Rightarrow> vendor_check" where
  "vendorHit v c = \<lparr>found = True, matched_vendor = Some v, vc_confidence = c\<rparr>"

text \<open>The loop over \<open>products.vendors\<close>; the three tests are in the order of the source.\<close>

fun vendorLoop :: "string \<Rightarrow> string list \<Rightarrow> vendor_check" where
  "vendorLoop brandLower [] = vendorMiss"
| "vendorLoop brandLower (vendor # rest) =
     (let vendorLower = trim (toLowerCase vendor) in
      if vendorLower = brandLower then vendorHit vendor 0.95
      else if includesStr vendorLower brandLower \<or> includesStr brandLower vendorLower
        then vendorHit vendor 0.80
      else if stripSeparators vendorLower = stripSeparators brandLower
        then vendorHit vendor 0.85
      else vendorLoop brandLower rest)"

definition shopifyStoreHasVendor :: "string list option \<Rightarrow> string \<Rightarrow> vendor_check" where
  "shopifyStoreHasVendor products brandName =
     (case products of
        None \<Rightarrow> vendorMiss
      | Some vendors \<Rightarrow> vendorLoop (trim (toLowerCase brandName)) vendors)"

section \<open>The redirect chain tracker\<close>

text \<open>
  \<open>trackRedirectChain\<close> talks to the network through \<open>fetch\<close>, resolves \<open>Location\<close>
  headers with the \<open>URL\<close> constructor and scans HTML with \<open>extractMetaRefreshUrl\<close>.
  The three are parameters of the model.  A response carries what the function reads
  from it: the status, the \<open>Location\<close> header, whether the content type mentions
  \<open>text/html\<close>, and the body.
\<close>

record response =
  status :: nat
  location :: "string option"
  is_html :: bool
  body :: string

record net =
  head_request :: "string \<Rightarrow> response option"
  get_request :: "string \<Rightarrow> response option"
  resolve_url :: "string \<Rightarrow> string \<Rightarrow> string option"
  meta_refresh :: "string \<Rightarrow> string \<Rightarrow> string option"

text \<open>
  In \<open>head_request\<close> and \<open>get_request\<close>, \<open>None\<close> is a \<open>fetch\<close> that throws (network
  error or timeout); in \<open>resolve_url\<close>, \<open>None\<close> is a \<open>URL\<close> constructor that throws; an
  empty \<open>Location\<close> header counts as absent, as the source tests it for truthiness.
\<close>

record redirect_chain =
  initial_url :: string
  final_url :: string
  chain :: "string list"

definition MAX_REDIRECTS :: nat where
  "MAX_REDIRECTS = 10"

text \<open>
  What one response asks for: \<open>Some (Some u)\<close> is a redirect to \<open>u\<close>, \<open>Some None\<close> is no
  redirect, and \<open>None\<close> is the exception of the \<open>URL\<close> constructor.
\<close>

definition redirectTarget :: "net \<Rightarrow> string \<Rightarrow> response \<Rightarrow> string option option" where
  "redirectTarget n currentUrl r =
     (if 300 \<le> status r \<and> status r < 400 then
        (case location r of
           None \<Rightarrow> Some None
         | Some l \<Rightarrow>
             if l = [] then Some None
             else (case resolve_url n l currentUrl of
                     None \<Rightarrow> None
                   | Some nextUrl \<Rightarrow> Some (Some nextUrl)))
      else Some None)"

text \<open>
  The body of the \<open>catch\<close> block: the \<open>GET\<close> retry.  It yields the next URL, or \<open>None\<close>
  when the loop is left.
\<close>

definition getFallback :: "net \<Rightarrow> string \<Rightarrow> string option" where
  "getFallback n currentUrl =
     (case get_request n currentUrl of
        None \<Rightarrow> None
      | Some r \<Rightarrow>
          (case redirectTarget n currentUrl r of
             None \<Rightarrow> None
           | Some (Some nextUrl) \<Rightarrow> Some nextUrl
           | Some None \<Rightarrow>
               if is_html r then
                 (case meta_refresh n (body r) currentUrl of
                    None \<Rightarrow> None
                  | Some m \<Rightarrow> if m \<noteq> [] \<and> m \<noteq> currentUrl then Some m else None)
               else None))"

text \<open>One pass of the \<open>while\<close> body: the next URL, or \<open>None\<close> for \<open>break\<close>.\<close>

definition nextHop :: "net \<Rightarrow> string \<Rightarrow> string option" where
  "nextHop n currentUrl =
     (case head_request n currentUrl of
        None \<Rightarrow> getFallback n currentUrl
      | Some r \<Rightarrow>
          (case redirectTarget n currentUrl r of
             None \<Rightarrow> getFallback n currentUrl
           | Some t \<Rightarrow> t))"

function trackLoop :: "net \<Rightarrow> string list \<Rightarrow> string \<Rightarrow> nat \<Rightarrow> string list \<times> string \<times> nat" where
  "trackLoop n ch currentUrl redirectCount =
     (if redirectCount < MAX_REDIRECTS then
        (case nextHop n currentUrl of
           None \<Rightarrow> (ch, currentUrl, redirectCount)
         | Some nextUrl \<Rightarrow> trackLoop n (ch @ [nextUrl]) nextUrl (redirectCount + 1))
      else (ch, currentUrl, redirectCount))"
  by pat_completeness auto
termination
  by (relation "measure (\<lambda>(n, ch, currentUrl, redirectCount). MAX_REDIRECTS - redirectCount)") auto

declare trackLoop.simps [simp del]

definition trackRedirectChain :: "net \<Rightarrow> string \<Rightarrow> redirect_chain" where
  "trackRedirectChain n initialUrl =
     (case trackLoop n [initialUrl] initialUrl 0 of
        (ch, currentUrl, hops) \<Rightarrow>
          \<lparr>initial_url = initialUrl, final_url = currentUrl, chain = ch\<rparr>)"

text \<open>The number of hops the loop took, that is the final value of \<open>redirectCount\<close>.\<close>

definition hopsTaken :: "net \<Rightarrow> string \<Rightarrow> nat" where
  "hopsTaken n initialUrl = snd (snd (trackLoop n [initialUrl] initialUrl 0))"

text \<open>
  A network in which \<open>a\<close> answers \<open>301\<close> with \<open>Location: b\<close> and \<open>b\<close> answers \<open>301\<close> with
  \<open>Location: a\<close>; every other URL answers \<open>200\<close>.  Absolute locations resolve to
  themselves.
\<close>

definition cycleNet :: "string \<Rightarrow> string \<Rightarrow> net" where
  "cycleNet a b =
     \<lparr>head_request = (\<lambda>u.
         if u = a then Some \<lparr>status = 301, location = Some b, is_html = False, body = []\<rparr>
         else if u = b then Some \<lparr>status = 301, location = Some a, is_html = False, body = []\<rparr>
         else Some \<lparr>status = 200, location = None, is_html = False, body = []\<rparr>),
       get_request = (\<lambda>u. None),
       resolve_url = (\<lambda>l base. Some l),
       meta_refresh = (\<lambda>html base. None)\<rparr>"

section \<open>The data model of the discovery pipeline\<close>

text \<open>
  Optional strings are \<^typ>\<open>string option\<close>.  The source tests them for truthiness, so
  an empty string counts as absent.  Optional arrays of an ad are plain lists: every use
  the model covers treats an absent array like an empty one.
\<close>

definition truthy :: "string option \<Rightarrow> bool" where
  "truthy s = (case s of None \<Rightarrow> False | Some v \<Rightarrow> v \<noteq> [])"

text \<open>\<open>a || b\<close> on an optional string and a default.\<close>

definition orElse :: "string option \<Rightarrow> string \<Rightarrow> string" where
  "orElse s d = (case s of None \<Rightarrow> d | Some v \<Rightarrow> if v = [] then d else v)"

record beneficiary_payer =
  beneficiary :: "string option"
  payer :: "string option"

record meta_ad =
  ad_id :: string
  ad_creative_bodies :: "string list"
  ad_creative_link_titles :: "string list"
  ad_creative_link_descriptions :: "string list"
  ad_creative_link_captions :: "string list"
  ad_snapshot_url :: "string option"
  page_id :: "string option"
  page_name :: "string option"
  beneficiary_payers :: "beneficiary_payer list"

datatype platform = Shopify | Woocommerce | Magento | Custom | Unknown

record brand_info =
  brand_name :: string
  brand_domain :: "string option"
  brand_aliases :: "string list"
  shopify_store :: "string option"
  vendor_name :: "string option"
  brand_platform :: "platform option"
  official_page_ids :: "string list"
  brand_payers :: "string list option"

datatype match_type =
  Direct | Redirect | ShopifyVendor | PresellCta | CheckoutMatch | ContentLink | ContentMatch
  | NoMatch

record domain_brand_check =
  domain :: string
  is_match :: bool
  match_kind :: match_type
  confidence :: confidence
  check_final_url :: "string option"
  check_redirect_chain :: "string list"
  shop_domain :: "string option"
  check_vendor_name :: "string option"
  page_ids :: "string list"
  ad_count :: nat

record page_info =
  pi_page_id :: string
  pi_page_name :: string
  pi_ad_count :: nat
  is_official :: bool

record third_party_page_info =
  tp_page_id :: string
  tp_page_name :: string
  tp_ad_count :: nat
  connection_type :: match_type
  tp_confidence :: confidence
  discovered_via :: string
  domains_used :: "string list"

record landing_page_info =
  lp_url :: string
  lp_count :: nat
  lp_domain :: string
  full_path :: string
  leads_to :: "string option"
  extraction_method :: match_type

record presell_chain_info =
  presell_domain :: string
  pc_chain :: "string list"
  final_domain :: string

record scan_stats =
  keywords_used :: "string list"
  total_ads_scanned :: nat
  unique_domains_checked :: nat
  matches_found :: nat
  scan_duration_seconds :: int
  detection_methods :: "(match_type \<times> nat) list"

datatype report_status = Completed | Processing | Cached | Error

text \<open>
  The debug information that the pipeline attaches to a completed report.  The text of a
  check's result is kept as the kind and the confidence of the match, if there is one.
\<close>

record check_log =
  cl_domain :: string
  cl_priority :: bool
  cl_result :: "(match_type \<times> confidence) option"
  cl_urls :: "string list option"

record debug_info =
  dbg_brand_aliases :: "string list"
  brand_ads_count :: nat
  keyword_ads_count :: nat
  combined_ads_count :: nat
  total_domains_found :: nat
  priority_domains_count :: nat
  priority_domains :: "string list"
  domains_checked :: "check_log list"
  domains_skipped_timeout :: nat

record discovery_response =
  success :: bool
  rstatus :: report_status
  brand :: string
  resp_brand_domain :: "string option"
  resp_brand_platform :: "platform option"
  official :: "page_info list"
  third_party :: "third_party_page_info list"
  presell :: "string list"
  redirect :: "string list"
  final_shop :: "string list"
  all_domains :: "string list"
  domain_urls :: "(string \<times> (string \<times> nat) list) list"
  top_landing_pages :: "landing_page_info list"
  presell_chains :: "presell_chain_info list"
  stats :: scan_stats
  error :: "string option"
  debug :: "debug_info option"

text \<open>
  A JavaScript \<open>Map\<close> (and an object used as a dictionary) is an association list in
  insertion order: \<^const>\<open>map_of\<close> reads it, and \<open>mapSet\<close> overwrites the value of a
  present key in place or appends a new key.  A \<open>Set\<close> is a list without duplicates in
  insertion order.
\<close>

fun mapSet :: "'k \<Rightarrow> 'v \<Rightarrow> ('k \<times> 'v) list \<Rightarrow> ('k \<times> 'v) list" where
  "mapSet k v [] = [(k, v)]"
| "mapSet k v (p # ps) = (if fst p = k then (k, v) # ps else p # mapSet k v ps)"

definition setAdd :: "'a \<Rightarrow> 'a list \<Rightarrow> 'a list" where
  "setAdd x xs = (if x \<in> set xs then xs else xs @ [x])"

text \<open>\<open>[...new Set(xs)]\<close>: the first occurrence of every element, in order.\<close>

definition dedupe :: "'a list \<Rightarrow> 'a list" where
  "dedupe xs = rev (remdups (rev xs))"

text \<open>\<open>m.set(k, (m.get(k) || 0) + 1)\<close>.\<close>

definition bump :: "'k \<Rightarrow> ('k \<times> nat) list \<Rightarrow> ('k \<times> nat) list" where
  "bump k m = mapSet k ((case map_of m k of None \<Rightarrow> 0 | Some c \<Rightarrow> c) + 1) m"

text \<open>
  \<open>Array.prototype.sort\<close> is stable.  The comparators of the pipeline order by one or two
  numbers, largest first; \<^const>\<open>sort_key\<close> is a stable insertion sort, so sorting by the
  negated numbers gives the same array.
\<close>

definition sortByCountDesc :: "('a \<times> nat) list \<Rightarrow> ('a \<times> nat) list" where
  "sortByCountDesc xs = sort_key (\<lambda>p. - int (snd p)) xs"

text \<open>
  The \<open>URL\<close> constructor is a parameter: it yields the parts of a URL the pipeline reads,
  or \<open>None\<close> where the constructor throws.
\<close>

record url_parts =
  hostname :: string
  pathname :: string
  search :: string

type_synonym url_parser = "string \<Rightarrow> url_parts option"

text \<open>\<open>try { return new URL(url).pathname !== '/' } catch { return false }\<close>\<close>

definition hasPath :: "url_parser \<Rightarrow> string \<Rightarrow> bool" where
  "hasPath parse u = (case parse u of None \<Rightarrow> False | Some p \<Rightarrow> pathname p \<noteq> ''/'')"

text \<open>The same test with \<open>pathname !== '/' && pathname !== ''\<close>.\<close>

definition hasRealPath :: "url_parser \<Rightarrow> string \<Rightarrow> bool" where
  "hasRealPath parse u =
     (case parse u of None \<Rightarrow> False | Some p \<Rightarrow> pathname p \<noteq> ''/'' \<and> pathname p \<noteq> [])"

record page_data =
  pd_name :: string
  pd_count :: nat
  pd_domains :: "string list"

type_synonym url_counts = "(string \<times> (string \<times> nat) list) list"

section \<open>Step 7: building the report\<close>

definition officialPage :: "string \<Rightarrow> (string \<times> page_data) list \<Rightarrow> string \<Rightarrow> page_info" where
  "officialPage brandName allPages pageId =
     (case map_of allPages pageId of
        None \<Rightarrow> \<lparr>pi_page_id = pageId, pi_page_name = brandName, pi_ad_count = 0,
                  is_official = True\<rparr>
      | Some pageData \<Rightarrow>
          \<lparr>pi_page_id = pageId, pi_page_name = orElse (Some (pd_name pageData)) brandName,
           pi_ad_count = pd_count pageData, is_official = True\<rparr>)"

text \<open>The page name lookup: the first ad with a page id and a page name decides.\<close>

definition addPageName :: "meta_ad \<Rightarrow> (string \<times> string) list \<Rightarrow> (string \<times> string) list" where
  "addPageName ad lookup =
     (case (page_id ad, page_name ad) of
        (Some pid, Some pname) \<Rightarrow>
          if pid \<noteq> [] \<and> pname \<noteq> [] \<and> map_of lookup pid = None
          then mapSet pid pname lookup else lookup
      | _ \<Rightarrow> lookup)"

definition pageNameLookup :: "meta_ad list \<Rightarrow> meta_ad list \<Rightarrow> (string \<times> string) list" where
  "pageNameLookup brandAds allAds = fold addPageName allAds (fold addPageName brandAds [])"

text \<open>
  The body of the inner loop over \<open>match.page_ids\<close>: an official page is skipped, a page
  already in the map is updated in place, a new page is appended.
\<close>

definition addPage ::
  "brand_info \<Rightarrow> (string \<times> page_data) list \<Rightarrow> (string \<times> string) list \<Rightarrow> domain_brand_check \<Rightarrow>
   string \<Rightarrow> (string \<times> third_party_page_info) list \<Rightarrow> (string \<times> third_party_page_info) list"
where
  "addPage brandInfo allPages lookup m pageId pages =
     (if pageId \<in> set (official_page_ids brandInfo) then pages
      else
        (case map_of pages pageId of
           Some existing \<Rightarrow>
             (let e1 = (if confidence m > tp_confidence existing
                        then existing\<lparr>connection_type := match_kind m,
                                      tp_confidence := confidence m\<rparr>
                        else existing);
                  e2 = (if domain m \<notin> set (domains_used e1)
                        then e1\<lparr>domains_used := domains_used e1 @ [domain m]\<rparr>
                        else e1);
                  e3 = e2\<lparr>tp_ad_count := tp_ad_count e2 + ad_count m\<rparr>
              in mapSet pageId e3 pages)
         | None \<Rightarrow>
             (let pageName =
                    (case map_of allPages pageId of
                       None \<Rightarrow> orElse (map_of lookup pageId) ''Unknown''
                     | Some pageData \<Rightarrow>
                         if pd_name pageData \<noteq> [] then pd_name pageData
                         else orElse (map_of lookup pageId) ''Unknown'')
              in mapSet pageId
                   \<lparr>tp_page_id = pageId, tp_page_name = pageName, tp_ad_count = ad_count m,
                    connection_type = match_kind m, tp_confidence = confidence m,
                    discovered_via = domain m, domains_used = [domain m]\<rparr>
                   pages)))"

definition thirdPartyPagesMap ::
  "brand_info \<Rightarrow> (string \<times> page_data) list \<Rightarrow> (string \<times> string) list \<Rightarrow>
   domain_brand_check list \<Rightarrow> (string \<times> third_party_page_info) list"
where
  "thirdPartyPagesMap brandInfo allPages lookup matchedDomains =
     fold (\<lambda>m pages. fold (addPage brandInfo allPages lookup m) (page_ids m) pages)
       matchedDomains []"

text \<open>
  \<open>sort((a, b) => b.confidence - a.confidence || b.ad_count - a.ad_count)\<close>: by
  confidence, then by ad count, both descending.
\<close>

definition thirdPartyPages ::
  "brand_info \<Rightarrow> (string \<times> page_data) list \<Rightarrow> (string \<times> string) list \<Rightarrow>
   domain_brand_check list \<Rightarrow> third_party_page_info list"
where
  "thirdPartyPages brandInfo allPages lookup matchedDomains =
     sort_key (\<lambda>p. (- tp_confidence p, - int (tp_ad_count p)))
       (map snd (thirdPartyPagesMap brandInfo allPages lookup matchedDomains))"

text \<open>The three categorised domain lists.\<close>

definition isPresellKind :: "match_type \<Rightarrow> bool" where
  "isPresellKind k = (k = PresellCta \<or> k = ContentLink \<or> k = ContentMatch \<or> k = CheckoutMatch)"

definition presellDomains :: "domain_brand_check list \<Rightarrow> string list" where
  "presellDomains matchedDomains =
     map domain (filter (\<lambda>m. isPresellKind (match_kind m)) matchedDomains)"

definition redirectDomains :: "domain_brand_check list \<Rightarrow> string list" where
  "redirectDomains matchedDomains =
     map domain (filter (\<lambda>m. match_kind m = Redirect) matchedDomains)"

text \<open>
  \<open>shopDomains\<close> takes the \<open>shopify_vendor\<close> and \<open>direct\<close> matches; then the brand's own
  domain is put in front unless it is already there.
\<close>

definition shopDomains :: "brand_info \<Rightarrow> domain_brand_check list \<Rightarrow> string list" where
  "shopDomains brandInfo matchedDomains =
     (let shops = map domain
            (filter (\<lambda>m. match_kind m = ShopifyVendor \<or> match_kind m = Direct) matchedDomains)
      in case brand_domain brandInfo of
           None \<Rightarrow> shops
         | Some bd \<Rightarrow> if bd \<noteq> [] \<and> bd \<notin> set shops then bd # shops else shops)"

text \<open>
  The URLs seen for a domain, with their counts: \<open>domainFullUrls\<close> maps a domain to a
  map from URL to count.  \<open>bumpUrl\<close> creates the inner map when the domain is new and
  counts one more occurrence of the URL.
\<close>

definition urlsOf :: "url_counts \<Rightarrow> string \<Rightarrow> (string \<times> nat) list" where
  "urlsOf m d = (case map_of m d of None \<Rightarrow> [] | Some um \<Rightarrow> um)"

definition bumpUrl :: "string \<Rightarrow> string \<Rightarrow> url_counts \<Rightarrow> url_counts" where
  "bumpUrl d u m = mapSet d (bump u (urlsOf m d)) m"

text \<open>
  The enrichment of \<open>domainFullUrls\<close> with the final URL and the redirect chain of every
  match; a URL that does not parse is skipped.
\<close>

definition addChainUrl :: "url_parser \<Rightarrow> string \<Rightarrow> string \<Rightarrow> url_counts \<Rightarrow> url_counts" where
  "addChainUrl parse domainLower chainUrl m =
     (case parse chainUrl of
        None \<Rightarrow> m
      | Some parsed \<Rightarrow>
          if pathname parsed \<noteq> ''/'' \<and> pathname parsed \<noteq> []
             \<and> toLowerCase (stripPrefix ''www.'' (hostname parsed)) = domainLower
          then bumpUrl domainLower chainUrl m else m)"

definition enrichMatch :: "url_parser \<Rightarrow> domain_brand_check \<Rightarrow> url_counts \<Rightarrow> url_counts" where
  "enrichMatch parse m urls =
     (let domainLower = toLowerCase (domain m);
          urls1 = (case check_final_url m of
                     None \<Rightarrow> urls
                   | Some fu \<Rightarrow>
                       if fu \<noteq> [] \<and> hasRealPath parse fu then bumpUrl domainLower fu urls
                       else urls)
      in fold (addChainUrl parse domainLower) (check_redirect_chain m) urls1)"

definition addDomainUrls ::
  "url_parser \<Rightarrow> url_counts \<Rightarrow> string \<Rightarrow> (string \<times> (string \<times> nat) list) list \<Rightarrow>
   (string \<times> (string \<times> nat) list) list"
where
  "addDomainUrls parse domainFullUrls d acc =
     (let urls = take 10 (sortByCountDesc
                   (filter (\<lambda>u. hasRealPath parse (fst u))
                      (urlsOf domainFullUrls (toLowerCase d))))
      in if urls \<noteq> [] then mapSet d urls acc else acc)"

definition landingPage ::
  "url_parser \<Rightarrow> brand_info \<Rightarrow> url_counts \<Rightarrow> domain_brand_check \<Rightarrow> landing_page_info"
where
  "landingPage parse brandInfo domainFullUrls m =
     (let captionUrls = map_of domainFullUrls (toLowerCase (domain m));
          base = (''https://'' @ domain m, ''/'');
          best =
            (case captionUrls of
               Some (c # cs) \<Rightarrow>
                 (case sortByCountDesc (filter (\<lambda>u. hasPath parse (fst u)) (c # cs)) of
                    [] \<Rightarrow> base
                  | (bestUrl, n) # rest \<Rightarrow>
                      (case parse bestUrl of
                         None \<Rightarrow> (bestUrl, ''/'')
                       | Some parsed \<Rightarrow> (bestUrl, pathname parsed @ search parsed)))
             | _ \<Rightarrow>
                 (case check_final_url m of
                    None \<Rightarrow> base
                  | Some fu \<Rightarrow>
                      if fu = [] then base
                      else (case parse fu of
                              None \<Rightarrow> base
                            | Some parsed \<Rightarrow>
                                if pathname parsed \<noteq> ''/''
                                then (fu, pathname parsed @ search parsed) else base)))
      in \<lparr>lp_url = fst best, lp_count = ad_count m, lp_domain = domain m,
          full_path = snd best,
          leads_to = (if truthy (shop_domain m) then shop_domain m
                      else if truthy (brand_domain brandInfo) then brand_domain brandInfo
                      else None),
          extraction_method = match_kind m\<rparr>)"

definition presellChain :: "brand_info \<Rightarrow> domain_brand_check \<Rightarrow> presell_chain_info" where
  "presellChain brandInfo m =
     \<lparr>presell_domain = domain m, pc_chain = check_redirect_chain m,
      final_domain = (if truthy (shop_domain m) then the (shop_domain m)
                      else orElse (brand_domain brandInfo) [])\<rparr>"

text \<open>\<open>Math.round(ms / 1000)\<close> on a whole number of milliseconds.\<close>

definition roundSeconds :: "int \<Rightarrow> int" where
  "roundSeconds ms = (ms + 500) div 1000"

text \<open>
  \<open>buildDiscoveryResult\<close>.  \<open>now\<close> is the reading of \<open>Date.now()\<close> taken for the scan
  duration.  The keys of \<open>domain_urls\<close> are domains, which an object keeps in insertion
  order.
\<close>

definition buildDiscoveryResult ::
  "url_parser \<Rightarrow> int \<Rightarrow> string \<Rightarrow> brand_info \<Rightarrow> domain_brand_check list \<Rightarrow> meta_ad list \<Rightarrow>
   (string \<times> page_data) list \<Rightarrow> string list \<Rightarrow> (match_type \<times> nat) list \<Rightarrow> int \<Rightarrow> nat \<Rightarrow>
   meta_ad list \<Rightarrow> url_counts \<Rightarrow> discovery_response"
where
  "buildDiscoveryResult parse now brandName brandInfo matchedDomains allAds allPages keywords
     detectionMethods startTime totalDomainsChecked brandAds domainFullUrls =
     (let officialPages = map (officialPage brandName allPages) (official_page_ids brandInfo);
          lookup = pageNameLookup brandAds allAds;
          pages = thirdPartyPages brandInfo allPages lookup matchedDomains;
          presells = presellDomains matchedDomains;
          redirects = redirectDomains matchedDomains;
          shops = shopDomains brandInfo matchedDomains;
          allDomains = dedupe (presells @ redirects @ shops);
          allRelevantDomains =
            (case brand_domain brandInfo of
               None \<Rightarrow> allDomains
             | Some bd \<Rightarrow> if bd \<noteq> [] \<and> bd \<notin> set allDomains then allDomains @ [bd]
                           else allDomains);
          fullUrls = fold (enrichMatch parse) matchedDomains domainFullUrls;
          urls = fold (addDomainUrls parse fullUrls) allRelevantDomains [];
          landingPages =
            take 20 (sort_key (\<lambda>l. - int (lp_count l))
              (map (landingPage parse brandInfo fullUrls)
                 (filter (\<lambda>m. domain m \<noteq> []) matchedDomains)))
      in \<lparr>success = True, rstatus = Completed, brand = brandName,
          resp_brand_domain = brand_domain brandInfo,
          resp_brand_platform = brand_platform brandInfo,
          official = officialPages, third_party = pages,
          presell = presells, redirect = redirects, final_shop = shops,
          all_domains = allDomains,
          domain_urls = urls,
          top_landing_pages = landingPages,
          presell_chains = map (presellChain brandInfo)
            (filter (\<lambda>m. match_kind m = PresellCta \<and> check_redirect_chain m \<noteq> [])
               matchedDomains),
          stats = \<lparr>keywords_used = keywords, total_ads_scanned = length allAds,
                   unique_domains_checked = totalDomainsChecked,
                   matches_found = length matchedDomains,
                   scan_duration_seconds = roundSeconds (now - startTime),
                   detection_methods = detectionMethods\<rparr>,
          error = None, debug = None\<rparr>)"

definition makeErrorResponse :: "string \<Rightarrow> string \<Rightarrow> discovery_response" where
  "makeErrorResponse b e =
     \<lparr>success = False, rstatus = Error, brand = b,
      resp_brand_domain = None, resp_brand_platform = None,
      official = [], third_party = [],
      presell = [], redirect = [], final_shop = [], all_domains = [],
      domain_urls = [],
      top_landing_pages = [],
      presell_chains = [],
      stats = \<lparr>keywords_used = [], total_ads_scanned = 0, unique_domains_checked = 0,
               matches_found = 0, scan_duration_seconds = 0, detection_methods = []\<rparr>,
      error = Some e, debug = None\<rparr>"

section \<open>Domains from ad captions\<close>

text \<open>
  \<open>extractDomainFromCaption\<close>.  The caption is trimmed and lower-cased, the prefix matched
  by \<open>/^(https?:\/\/)?(www\.)?/\<close> is removed and what stands before the first slash is
  kept, if it has a dot and no blank.
\<close>

definition stripScheme :: "string \<Rightarrow> string" where
  "stripScheme s =
     (if startsWith s ''https://'' then drop 8 s
      else if startsWith s ''http://'' then drop 7 s
      else s)"

definition extractDomainFromCaption :: "string \<Rightarrow> string option" where
  "extractDomainFromCaption caption =
     (if caption = [] then None
      else
        (let d = beforeSlash (stripPrefix ''www.'' (stripScheme (toLowerCase (trim caption))))
         in if d \<noteq> [] \<and> CHR ''.'' \<in> set d \<and> CHR '' '' \<notin> set d then Some d else None))"

text \<open>\<open>s.replace(/\/+$/, '')\<close>.\<close>

definition stripTrailingSlashes :: "string \<Rightarrow> string" where
  "stripTrailingSlashes s = rev (dropWhile (\<lambda>c. c = CHR ''/'') (rev s))"

definition extractFullUrlFromCaption :: "string \<Rightarrow> string option" where
  "extractFullUrlFromCaption caption =
     (if caption = [] then None
      else
        (let cleaned = stripTrailingSlashes
               (stripPrefix ''www.'' (stripScheme (toLowerCase (trim caption))));
             domainPart = beforeSlash cleaned
         in if domainPart = [] \<or> CHR ''.'' \<notin> set domainPart \<or> CHR '' '' \<in> set domainPart
            then None else Some (''https://'' @ cleaned)))"

section \<open>Step 5: the candidate domains\<close>

record domain_extraction =
  domainPageMap :: "(string \<times> string list) list"
  domainAdCount :: "(string \<times> nat) list"
  allPages :: "(string \<times> page_data) list"
  domainFullUrls :: url_counts
  brandDomains :: "string list"

definition excludedDomains :: "string list" where
  "excludedDomains =
     [''facebook.com'', ''fb.com'', ''instagram.com'', ''meta.com'',
      ''google.com'', ''youtube.com'', ''twitter.com'', ''pinterest.com'',
      ''tiktok.com'', ''bit.ly'', ''linktr.ee'', ''l.facebook.com'']"

definition isExcluded :: "string \<Rightarrow> bool" where
  "isExcluded domainLower =
     (domainLower \<in> set excludedDomains
      \<or> list_ex (\<lambda>ed. endsWith domainLower (''.'' @ ed)) excludedDomains)"

text \<open>\<open>brandInfo.brand_aliases.some(alias => domainLower.includes(alias.replace(/\s+/g, '')))\<close>\<close>

definition containsAlias :: "brand_info \<Rightarrow> string \<Rightarrow> bool" where
  "containsAlias brandInfo domainLower =
     list_ex (\<lambda>alias. includesStr domainLower (stripSpaces alias)) (brand_aliases brandInfo)"

text \<open>The set \<open>brandDomains\<close> as it is before the loop over the ads.\<close>

definition initialBrandDomains :: "brand_info \<Rightarrow> string list" where
  "initialBrandDomains brandInfo =
     (case brand_domain brandInfo of
        None \<Rightarrow> []
      | Some bd \<Rightarrow>
          if bd = [] then []
          else (case shopify_store brandInfo of
                  None \<Rightarrow> [toLowerCase bd]
                | Some store \<Rightarrow>
                    if store = [] then [toLowerCase bd]
                    else setAdd (store @ ''.myshopify.com'') [toLowerCase bd]))"

text \<open>
  The body of the loop over the captions of one ad.  The page entry of the ad is in
  \<open>allPages\<close> already; the last step of the body adds the domain to its \<open>domains\<close>.
\<close>

definition addPageDomain :: "string \<Rightarrow> string \<Rightarrow> (string \<times> page_data) list \<Rightarrow> (string \<times> page_data) list" where
  "addPageDomain pageId d pages =
     (case map_of pages pageId of
        None \<Rightarrow> pages
      | Some info \<Rightarrow> mapSet pageId (info\<lparr>pd_domains := setAdd d (pd_domains info)\<rparr>) pages)"

definition captionStep :: "brand_info \<Rightarrow> string \<Rightarrow> string \<Rightarrow> domain_extraction \<Rightarrow> domain_extraction" where
  "captionStep brandInfo pageId caption st =
     (case extractDomainFromCaption caption of
        None \<Rightarrow> st
      | Some dm \<Rightarrow>
          (let domainLower = toLowerCase dm;
               st1 = (case extractFullUrlFromCaption caption of
                        None \<Rightarrow> st
                      | Some fullUrl \<Rightarrow>
                          st\<lparr>domainFullUrls := bumpUrl domainLower fullUrl (domainFullUrls st)\<rparr>)
           in if domainLower \<in> set (brandDomains st1) then st1
              else if isExcluded domainLower then st1
              else if containsAlias brandInfo domainLower
                then st1\<lparr>brandDomains := setAdd domainLower (brandDomains st1)\<rparr>
              else
                (let existingPages =
                       (case map_of (domainPageMap st1) domainLower of
                          None \<Rightarrow> [] | Some ps \<Rightarrow> ps)
                 in st1\<lparr>domainPageMap :=
                          mapSet domainLower (setAdd pageId existingPages) (domainPageMap st1),
                        domainAdCount := bump domainLower (domainAdCount st1),
                        allPages := addPageDomain pageId domainLower (allPages st1)\<rparr>)))"

definition adStep :: "brand_info \<Rightarrow> meta_ad \<Rightarrow> domain_extraction \<Rightarrow> domain_extraction" where
  "adStep brandInfo ad st =
     (let pageId = orElse (page_id ad) ''unknown'';
          pageName = orElse (page_name ad) ''Unknown'';
          pageInfo = (case map_of (allPages st) pageId of
                        None \<Rightarrow> \<lparr>pd_name = pageName, pd_count = 0, pd_domains = []\<rparr>
                      | Some info \<Rightarrow> info);
          st1 = st\<lparr>allPages :=
                  mapSet pageId (pageInfo\<lparr>pd_count := pd_count pageInfo + 1\<rparr>) (allPages st)\<rparr>
      in fold (captionStep brandInfo pageId) (ad_creative_link_captions ad) st1)"

definition extractUniqueDomains :: "meta_ad list \<Rightarrow> brand_info \<Rightarrow> domain_extraction" where
  "extractUniqueDomains ads brandInfo =
     fold (adStep brandInfo) ads
       \<lparr>domainPageMap = [], domainAdCount = [], allPages = [], domainFullUrls = [],
        brandDomains = initialBrandDomains brandInfo\<rparr>"

section \<open>Outbound calls\<close>

text \<open>
  Every function of the pipeline that reaches the network is a parameter of the model
  (a field of \<open>web\<close>), and a function that uses one returns, next to its value, the list
  of the calls it made, in order.  A step that is not run contributes no call.
\<close>

record search_params =
  search_terms :: string
  ad_reached_countries :: "string list"
  search_type :: string
  ad_active_status :: "string option"
  max_results :: nat

datatype call =
    SearchAds search_params
  | DetectShopify string
  | RefineKeywords "string list"
  | ScrapeSnapshot string
  | ExtractLandingPageUrl string
  | FetchPage string
  | FetchProducts string
  | TrackPresell string
  | FetchLanding string
  | Render string
  | Delay nat
  | CacheLookup string
  | CacheStore string

type_synonym 'a traced = "'a \<times> call list"

text \<open>
  \<open>orNext x y\<close>: the step \<open>x\<close> returns its match, or else the steps \<open>y\<close> run after it.
\<close>

definition orNext :: "'a option traced \<Rightarrow> 'a option traced \<Rightarrow> 'a option traced" where
  "orNext x y = (case fst x of Some r \<Rightarrow> x | None \<Rightarrow> (fst y, snd x @ snd y))"

text \<open>
  A response of \<open>fetch\<close> with redirects followed: \<open>response.ok\<close>, \<open>response.url\<close> and the
  text of the body.  \<open>None\<close> is a call that throws (network error, timeout, unreadable
  body).
\<close>

record fetched =
  ok :: bool
  resp_url :: string
  resp_text :: string

record presell_result =
  pr_final_url :: "string option"
  pr_chain :: "string list"

record shopify_detection =
  is_shopify :: bool
  sd_platform :: platform
  store_name :: "string option"
  myshopify_domain :: "string option"
  sd_vendor_name :: "string option"
  og_site_name :: "string option"

record scrape_result =
  scrape_success :: bool
  scrape_url :: "string option"
  scrape_final_url :: "string option"

record web =
  fetch_all_ads :: "search_params \<Rightarrow> string + meta_ad list"
  detect_shopify :: "string \<Rightarrow> string + shopify_detection"
  refine_keywords :: "string list \<Rightarrow> string \<Rightarrow> string \<Rightarrow> nat \<Rightarrow> string + string list option"
  scrape_with_headless :: "string \<Rightarrow> string + scrape_result"
  extract_landing_page_url :: "string \<Rightarrow> string + string option"
  fetch_page :: "string \<Rightarrow> fetched option"
  products_json :: "string \<Rightarrow> string list option"
  presell_chain :: "string \<Rightarrow> presell_result"
  fetch_landing :: "string \<Rightarrow> fetched option"
  render_page :: "string \<Rightarrow> fetched option"
  parse_url :: url_parser
  clock :: "nat \<Rightarrow> int"

text \<open>
  In the fields with a sum type, \<open>Inl e\<close> is an exception with message \<open>e\<close>.
  \<open>fetch_page\<close> is the \<open>fetch\<close> of \<open>fetchWithRedirects\<close>, \<open>fetch_landing\<close> the one of
  step 6f, \<open>render_page\<close> the call of the rendering service, \<open>products_json\<close> is
  \<open>fetchProductsJson\<close> and \<open>presell_chain\<close> is \<open>trackPresellChain\<close>; the last two catch
  their own exceptions.  \<open>clock k\<close> is the reading of \<open>Date.now()\<close> after \<open>k\<close> outbound
  calls have been made.
\<close>

section \<open>Step 6: the verification cascade\<close>

record fetch_result =
  fr_final_url :: string
  fr_chain :: "string list"
  fr_html :: string

definition startUrlOf :: "string \<Rightarrow> string" where
  "startUrlOf domainOrUrl =
     (if startsWith domainOrUrl ''http'' then domainOrUrl else ''https://'' @ domainOrUrl)"

definition fetchWithRedirects :: "web \<Rightarrow> string \<Rightarrow> fetch_result option traced" where
  "fetchWithRedirects w domainOrUrl =
     (let startUrl = startUrlOf domainOrUrl in
      (case fetch_page w startUrl of
         None \<Rightarrow> None
       | Some r \<Rightarrow>
           if \<not> ok r then None
           else Some \<lparr>fr_final_url = resp_url r,
                      fr_chain = startUrl #
                        (if resp_url r \<noteq> startUrl \<and> resp_url r \<noteq> startUrl @ ''/''
                         then [resp_url r] else []),
                      fr_html = resp_text r\<rparr>,
       [FetchPage startUrl]))"

definition extractDomainFromUrl :: "url_parser \<Rightarrow> string \<Rightarrow> string option" where
  "extractDomainFromUrl parse u =
     (case parse u of
        None \<Rightarrow> None
      | Some p \<Rightarrow> Some (toLowerCase (stripPrefix ''www.'' (hostname p))))"

definition isDomainMatch :: "string \<Rightarrow> brand_info \<Rightarrow> bool" where
  "isDomainMatch d brandInfo =
     (let domainLower = stripPrefix ''www.'' (toLowerCase d) in
      (case brand_domain brandInfo of
         None \<Rightarrow> False
       | Some bd \<Rightarrow> bd \<noteq> [] \<and> domainLower = toLowerCase bd)
      \<or> (case shopify_store brandInfo of
           None \<Rightarrow> False
         | Some store \<Rightarrow> store \<noteq> [] \<and> domainLower = store @ ''.myshopify.com'')
      \<or> list_ex (\<lambda>alias. 3 \<le> length (stripSeparators alias)
                          \<and> includesStr domainLower (stripSeparators alias))
           (brand_aliases brandInfo))"

text \<open>\<open>d && isDomainMatch(d, brandInfo)\<close> on an optional domain.\<close>

definition matchesBrand :: "string option \<Rightarrow> brand_info \<Rightarrow> bool" where
  "matchesBrand d brandInfo =
     (case d of None \<Rightarrow> False | Some v \<Rightarrow> v \<noteq> [] \<and> isDomainMatch v brandInfo)"

record check_options =
  scrapingbee_key :: "string option"
  domainAds :: "meta_ad list option"
  optFullUrls :: "(string \<times> nat) list option"

definition noResult :: "string \<Rightarrow> domain_brand_check" where
  "noResult d =
     \<lparr>domain = d, is_match = False, match_kind = NoMatch, confidence = 0,
      check_final_url = None, check_redirect_chain = [], shop_domain = None,
      check_vendor_name = None, page_ids = [], ad_count = 0\<rparr>"

text \<open>What the source writes into \<open>result\<close> before it returns a match.\<close>

definition matched ::
  "domain_brand_check \<Rightarrow> match_type \<Rightarrow> confidence \<Rightarrow> string option \<Rightarrow> domain_brand_check" where
  "matched result k c shop =
     result\<lparr>is_match := True, match_kind := k, confidence := c, shop_domain := shop\<rparr>"

text \<open>The first alias of at least four characters that the text contains.\<close>

definition aliasIn :: "brand_info \<Rightarrow> string \<Rightarrow> string option" where
  "aliasIn brandInfo txt =
     find (\<lambda>alias. 4 \<le> length alias \<and> includesStr txt alias) (brand_aliases brandInfo)"

text \<open>Step 6c, the vendor check on a page that mentions the Shopify CDN.\<close>

definition vendorStep ::
  "web \<Rightarrow> string \<Rightarrow> brand_info \<Rightarrow> string \<Rightarrow> domain_brand_check \<Rightarrow> domain_brand_check option traced"
where
  "vendorStep w d brandInfo html result =
     (case vendor_name brandInfo of
        None \<Rightarrow> (None, [])
      | Some vendor \<Rightarrow>
          if vendor \<noteq> [] \<and> includesStr (toLowerCase html) ''cdn.shopify.com'' then
            (let vendorCheck = shopifyStoreHasVendor (products_json w d) vendor in
             (if found vendorCheck
              then Some ((matched result ShopifyVendor (vc_confidence vendorCheck) (Some d))
                            \<lparr>check_vendor_name := matched_vendor vendorCheck\<rparr>)
              else None,
              [FetchProducts d]))
          else (None, []))"

text \<open>The content checks of step 6c on the fetched HTML.\<close>

definition contentStep ::
  "brand_info \<Rightarrow> string \<Rightarrow> string \<Rightarrow> domain_brand_check \<Rightarrow> domain_brand_check option traced"
where
  "contentStep brandInfo brandDomain html result =
     (if includesStr html brandDomain
      then (Some (matched result ContentLink 0.75 (Some brandDomain)), [])
      else (case aliasIn brandInfo (toLowerCase html) of
              Some alias \<Rightarrow>
                (Some ((matched result ContentMatch 0.60 (brand_domain brandInfo))
                         \<lparr>check_vendor_name := Some alias\<rparr>), [])
            | None \<Rightarrow> (None, [])))"

text \<open>Step 6d: the home page and up to three landing URLs with a path.\<close>

definition presellUrlsToCheck :: "url_parser \<Rightarrow> string \<Rightarrow> check_options \<Rightarrow> string list" where
  "presellUrlsToCheck parse d opts =
     (case optFullUrls opts of
        None \<Rightarrow> [''https://'' @ d]
      | Some urls \<Rightarrow>
          fold setAdd
            (map fst (take 3 (sortByCountDesc (filter (\<lambda>u. hasPath parse (fst u)) urls))))
            [''https://'' @ d])"

definition presellOne ::
  "web \<Rightarrow> brand_info \<Rightarrow> domain_brand_check \<Rightarrow> string \<Rightarrow> domain_brand_check option traced"
where
  "presellOne w brandInfo result presellUrl =
     (let presellResult = presell_chain w presellUrl in
      (case pr_final_url presellResult of
         None \<Rightarrow> (None, [TrackPresell presellUrl])
       | Some fu \<Rightarrow>
           if fu = [] then (None, [TrackPresell presellUrl])
           else
             (let ctaFinalDomain = extractDomainFromUrl (parse_url w) fu in
              if matchesBrand ctaFinalDomain brandInfo
              then (Some ((matched result PresellCta 0.85 ctaFinalDomain)
                            \<lparr>check_redirect_chain := pr_chain presellResult\<rparr>),
                    [TrackPresell presellUrl])
              else if truthy ctaFinalDomain \<and> truthy (vendor_name brandInfo) then
                (let vendorCheck = shopifyStoreHasVendor
                       (products_json w (the ctaFinalDomain)) (the (vendor_name brandInfo))
                 in (if found vendorCheck
                     then Some ((matched result CheckoutMatch (vc_confidence vendorCheck)
                                   ctaFinalDomain)
                                  \<lparr>check_vendor_name := matched_vendor vendorCheck,
                                   check_redirect_chain := pr_chain presellResult\<rparr>)
                     else None,
                     [TrackPresell presellUrl, FetchProducts (the ctaFinalDomain)]))
              else (None, [TrackPresell presellUrl]))))"

fun presellLoop ::
  "web \<Rightarrow> brand_info \<Rightarrow> domain_brand_check \<Rightarrow> string list \<Rightarrow> domain_brand_check option traced"
where
  "presellLoop w brandInfo result [] = (None, [])"
| "presellLoop w brandInfo result (u # us) =
     orNext (presellOne w brandInfo result u) (presellLoop w brandInfo result us)"

text \<open>Step 6f, checks 1 and 2: the landing URLs known from the ads, without any call.\<close>

definition landingUrlOne ::
  "url_parser \<Rightarrow> brand_info \<Rightarrow> domain_brand_check \<Rightarrow> string \<Rightarrow> domain_brand_check option"
where
  "landingUrlOne parse brandInfo result fullUrl =
     (let urlDomain = extractDomainFromUrl parse fullUrl in
      if matchesBrand urlDomain brandInfo
      then Some (matched result Redirect 0.85 urlDomain)
      else (case parse fullUrl of
              None \<Rightarrow> None
            | Some parsed \<Rightarrow>
                (case aliasIn brandInfo (toLowerCase (pathname parsed)) of
                   Some alias \<Rightarrow>
                     Some (matched result ContentLink 0.80 (brand_domain brandInfo))
                 | None \<Rightarrow> None)))"

fun landingUrlLoop ::
  "url_parser \<Rightarrow> brand_info \<Rightarrow> domain_brand_check \<Rightarrow> string list \<Rightarrow> domain_brand_check option"
where
  "landingUrlLoop parse brandInfo result [] = None"
| "landingUrlLoop parse brandInfo result (u # us) =
     (case landingUrlOne parse brandInfo result u of
        Some r \<Rightarrow> Some r
      | None \<Rightarrow> landingUrlLoop parse brandInfo result us)"

text \<open>Step 6f, check 3: up to two landing pages are fetched and their HTML is searched.\<close>

definition landingPageOne ::
  "web \<Rightarrow> brand_info \<Rightarrow> string \<Rightarrow> domain_brand_check \<Rightarrow> string \<Rightarrow>
   domain_brand_check option traced"
where
  "landingPageOne w brandInfo brandDomain result specificUrl =
     ((case fetch_landing w specificUrl of
         None \<Rightarrow> None
       | Some resp \<Rightarrow>
           if \<not> ok resp then None
           else
             (let htmlLower = toLowerCase (resp_text resp) in
              if includesStr htmlLower brandDomain
              then Some (matched result ContentLink 0.75 (Some brandDomain))
              else (case aliasIn brandInfo htmlLower of
                      Some alias \<Rightarrow>
                        Some ((matched result ContentMatch 0.65 (brand_domain brandInfo))
                                \<lparr>check_vendor_name := Some alias\<rparr>)
                    | None \<Rightarrow> None))),
      [FetchLanding specificUrl])"

fun landingPageLoop ::
  "web \<Rightarrow> brand_info \<Rightarrow> string \<Rightarrow> domain_brand_check \<Rightarrow> string list \<Rightarrow>
   domain_brand_check option traced"
where
  "landingPageLoop w brandInfo brandDomain result [] = (None, [])"
| "landingPageLoop w brandInfo brandDomain result (u # us) =
     orNext (landingPageOne w brandInfo brandDomain result u)
       (landingPageLoop w brandInfo brandDomain result us)"

definition landingStep ::
  "web \<Rightarrow> brand_info \<Rightarrow> string \<Rightarrow> check_options \<Rightarrow> domain_brand_check \<Rightarrow>
   domain_brand_check option traced"
where
  "landingStep w brandInfo brandDomain opts result =
     (case optFullUrls opts of
        None \<Rightarrow> (None, [])
      | Some urls \<Rightarrow>
          if urls = [] then (None, [])
          else
            orNext (landingUrlLoop (parse_url w) brandInfo result (map fst urls), [])
              (landingPageLoop w brandInfo brandDomain result
                 (map fst (take 2 (sortByCountDesc
                    (filter (\<lambda>u. hasPath (parse_url w) (fst u)) urls))))))"

text \<open>The dual-domain check: an ad of this domain also names a domain of the brand.\<close>

definition dualCaption :: "string \<Rightarrow> brand_info \<Rightarrow> string \<Rightarrow> string option" where
  "dualCaption d brandInfo caption =
     (case extractDomainFromCaption caption of
        None \<Rightarrow> None
      | Some cd \<Rightarrow>
          (let captionDomain = toLowerCase cd in
           if captionDomain \<noteq> [] \<and> captionDomain \<noteq> toLowerCase d
              \<and> isDomainMatch captionDomain brandInfo
           then Some captionDomain else None))"

definition dualStep ::
  "string \<Rightarrow> brand_info \<Rightarrow> check_options \<Rightarrow> domain_brand_check \<Rightarrow> domain_brand_check option"
where
  "dualStep d brandInfo opts result =
     (case domainAds opts of
        None \<Rightarrow> None
      | Some ads \<Rightarrow>
          (case List.map_filter (dualCaption d brandInfo)
                  (concat (map ad_creative_link_captions ads)) of
             [] \<Rightarrow> None
           | captionDomain # rest \<Rightarrow> Some (matched result ContentLink 0.80 (Some captionDomain))))"

text \<open>
  Step 6g scans the rendered HTML with two regular expressions.  \<open>hrefValues\<close> lists the
  captures of \<open>/href=["']([^"']*?)["']/gi\<close> and \<open>httpHrefValues\<close> those of
  \<open>/href=["'](https?:\/\/[^"']+)["']/gi\<close>, in the order in which repeated \<open>exec\<close> calls
  find them: after a match the scan goes on behind it, otherwise at the next character.
\<close>

definition isQuote :: "char \<Rightarrow> bool" where
  "isQuote c = (c = CHR 0x22 \<or> c = CHR 0x27)"

text \<open>
  An attribute at the head of \<open>s\<close>: \<open>href=\<close> in any case, a quote, a run without quotes
  and a quote.  The result is the run and what follows the closing quote.
\<close>

definition hrefAt :: "string \<Rightarrow> (string \<times> string) option" where
  "hrefAt s =
     (if toLowerCase (take 5 s) = ''href='' \<and> 5 < length s \<and> isQuote (s ! 5) then
        (let rest = drop 6 s;
             v = takeWhile (\<lambda>c. \<not> isQuote c) rest;
             after = dropWhile (\<lambda>c. \<not> isQuote c) rest
         in if after = [] then None else Some (v, tl after))
      else None)"

definition isHttpUrl :: "string \<Rightarrow> bool" where
  "isHttpUrl v =
     ((startsWith (toLowerCase v) ''https://'' \<and> 8 < length v)
      \<or> (startsWith (toLowerCase v) ''http://'' \<and> 7 < length v))"

lemma hrefAt_shorter: "hrefAt s = Some (v, r) \<Longrightarrow> length r < length s"
proof -
  assume a: "hrefAt s = Some (v, r)"
  then have r: "r = tl (dropWhile (\<lambda>c. \<not> isQuote c) (drop 6 s))" and l: "5 < length s"
    by (auto simp: hrefAt_def Let_def split: if_splits)
  have "length (dropWhile (\<lambda>c. \<not> isQuote c) (drop 6 s)) \<le> length (drop 6 s)"
    by (rule length_dropWhile_le)
  with r l show ?thesis by simp
qed

function hrefValues :: "string \<Rightarrow> string list" where
  "hrefValues s =
     (if s = [] then []
      else (case hrefAt s of
              Some (v, r) \<Rightarrow> v # hrefValues r
            | None \<Rightarrow> hrefValues (tl s)))"
  by pat_completeness auto
termination
  by (relation "measure length") (auto dest: hrefAt_shorter)

declare hrefValues.simps [simp del]

function httpHrefValues :: "string \<Rightarrow> string list" where
  "httpHrefValues s =
     (if s = [] then []
      else (case hrefAt s of
              Some (v, r) \<Rightarrow>
                if isHttpUrl v then v # httpHrefValues r else httpHrefValues (tl s)
            | None \<Rightarrow> httpHrefValues (tl s)))"
  by pat_completeness auto
termination
  by (relation "measure length") (auto dest: hrefAt_shorter)

declare httpHrefValues.simps [simp del]

definition ctaPatterns :: "string list" where
  "ctaPatterns =
     [''shop'', ''kauf'', ''bestell'', ''checkout'', ''angebot'', ''buy'', ''order'',
      ''/go/'', ''/out/'', ''/click'', ''/redirect'', ''/track'']"

definition ctaLinks :: "string \<Rightarrow> string list" where
  "ctaLinks html =
     take 3 (filter (\<lambda>l. list_ex (\<lambda>p. includesStr (toLowerCase l) p) ctaPatterns)
               (httpHrefValues html))"

text \<open>\<open>try { return new URL(url).pathname.length > 1 } catch { return false }\<close>\<close>

definition hasLongPath :: "url_parser \<Rightarrow> string \<Rightarrow> bool" where
  "hasLongPath parse u = (case parse u of None \<Rightarrow> False | Some p \<Rightarrow> 1 < length (pathname p))"

definition renderTarget :: "url_parser \<Rightarrow> string \<Rightarrow> check_options \<Rightarrow> string" where
  "renderTarget parse d opts =
     (case optFullUrls opts of
        None \<Rightarrow> ''https://'' @ d
      | Some urls \<Rightarrow>
          (case sortByCountDesc (filter (\<lambda>u. hasLongPath parse (fst u)) urls) of
             [] \<Rightarrow> ''https://'' @ d
           | (u, n) # rest \<Rightarrow> u))"

text \<open>Check 4 of step 6g: a call-to-action link is followed through its redirects.\<close>

definition ctaOne ::
  "web \<Rightarrow> brand_info \<Rightarrow> domain_brand_check \<Rightarrow> string \<Rightarrow> domain_brand_check option traced"
where
  "ctaOne w brandInfo result ctaLink =
     (let f = fetchWithRedirects w ctaLink in
      ((case fst f of
          None \<Rightarrow> None
        | Some redirectResult \<Rightarrow>
            (let ctaFinalDomain =
                   extractDomainFromUrl (parse_url w) (fr_final_url redirectResult)
             in if matchesBrand ctaFinalDomain brandInfo
                then Some ((matched result PresellCta 0.85 ctaFinalDomain)
                             \<lparr>check_redirect_chain := fr_chain redirectResult\<rparr>)
                else None)),
       snd f))"

fun ctaLoop ::
  "web \<Rightarrow> brand_info \<Rightarrow> domain_brand_check \<Rightarrow> string list \<Rightarrow> domain_brand_check option traced"
where
  "ctaLoop w brandInfo result [] = (None, [])"
| "ctaLoop w brandInfo result (l # ls) =
     orNext (ctaOne w brandInfo result l) (ctaLoop w brandInfo result ls)"

text \<open>Checks 1 to 3 of step 6g on the rendered HTML.\<close>

definition renderedContent ::
  "web \<Rightarrow> brand_info \<Rightarrow> string \<Rightarrow> domain_brand_check \<Rightarrow> string \<Rightarrow> domain_brand_check option"
where
  "renderedContent w brandInfo brandDomain result html =
     (case find (\<lambda>ld. matchesBrand ld brandInfo)
             (map (extractDomainFromUrl (parse_url w)) (hrefValues html)) of
        Some linkDomain \<Rightarrow> Some (matched result PresellCta 0.85 linkDomain)
      | None \<Rightarrow>
          if includesStr (toLowerCase html) brandDomain
          then Some (matched result ContentLink 0.80 (Some brandDomain))
          else (case aliasIn brandInfo (toLowerCase html) of
                  Some alias \<Rightarrow>
                    Some ((matched result ContentMatch 0.70 (brand_domain brandInfo))
                            \<lparr>check_vendor_name := Some alias\<rparr>)
                | None \<Rightarrow> None))"

definition renderStep ::
  "web \<Rightarrow> string \<Rightarrow> brand_info \<Rightarrow> string \<Rightarrow> check_options \<Rightarrow> domain_brand_check \<Rightarrow>
   domain_brand_check option traced"
where
  "renderStep w d brandInfo brandDomain opts result =
     (if truthy (scrapingbee_key opts) then
        (let targetUrl = renderTarget (parse_url w) d opts in
         orNext (None, [Render targetUrl])
           (case render_page w targetUrl of
              None \<Rightarrow> (None, [])
            | Some sbResponse \<Rightarrow>
                if \<not> ok sbResponse then (None, [])
                else
                  orNext
                    (renderedContent w brandInfo brandDomain result (resp_text sbResponse), [])
                    (ctaLoop w brandInfo result (ctaLinks (resp_text sbResponse)))))
      else (None, []))"

text \<open>Steps 6b to 6d, which need the page that \<open>fetchWithRedirects\<close> returned.\<close>

definition fetchSteps ::
  "web \<Rightarrow> string \<Rightarrow> brand_info \<Rightarrow> string \<Rightarrow> check_options \<Rightarrow> domain_brand_check \<Rightarrow>
   fetch_result \<Rightarrow> domain_brand_check option traced"
where
  "fetchSteps w d brandInfo brandDomain opts result fetchResult =
     (let finalDomain = extractDomainFromUrl (parse_url w) (fr_final_url fetchResult) in
      if matchesBrand finalDomain brandInfo
      then (Some (matched result Redirect 0.90 finalDomain), [])
      else
        orNext
          (if fr_html fetchResult \<noteq> []
           then orNext (vendorStep w d brandInfo (fr_html fetchResult) result)
                  (contentStep brandInfo brandDomain (fr_html fetchResult) result)
           else (None, []))
          (presellLoop w brandInfo result (presellUrlsToCheck (parse_url w) d opts)))"

text \<open>
  \<open>checkDomainForBrand\<close>.  The timeout of the options only bounds the outbound calls,
  whose outcomes are parameters, and \<open>use_headless\<close> is not read by the function; both are
  left out of \<open>check_options\<close>.  No call of the model throws, so the outer \<open>catch\<close> has no
  counterpart.
\<close>

definition checkDomainForBrand ::
  "web \<Rightarrow> string \<Rightarrow> brand_info \<Rightarrow> check_options \<Rightarrow> domain_brand_check traced"
where
  "checkDomainForBrand w d brandInfo opts =
     (case brand_domain brandInfo of
        None \<Rightarrow> (noResult d, [])
      | Some bd \<Rightarrow>
          if bd = [] then (noResult d, [])
          else
            (let brandDomain = toLowerCase bd;
                 result = noResult d
             in if toLowerCase d = brandDomain
                then (matched result Direct 1.0 (Some d), [])
                else
                  (let f = fetchWithRedirects w d;
                       result1 =
                         (case fst f of
                            None \<Rightarrow> result
                          | Some fetchResult \<Rightarrow>
                              result\<lparr>check_final_url := Some (fr_final_url fetchResult),
                                     check_redirect_chain := fr_chain fetchResult\<rparr>);
                       out =
                         orNext (None, snd f)
                           (orNext
                              (case fst f of
                                 None \<Rightarrow> (None, [])
                               | Some fetchResult \<Rightarrow>
                                   fetchSteps w d brandInfo brandDomain opts result1 fetchResult)
                              (orNext (landingStep w brandInfo brandDomain opts result1)
                                 (orNext (dualStep d brandInfo opts result1, [])
                                    (renderStep w d brandInfo brandDomain opts result1))))
                   in (case fst out of Some r \<Rightarrow> r | None \<Rightarrow> result1, snd out))))"

section \<open>The keyword generator\<close>

text \<open>
  The three word lists of the source (German stop words, English stop words, generic ad
  words) have several hundred entries each.  The functions below take them as a
  parameter, so what is proved holds for the lists of the source in particular.
\<close>

record word_lists =
  germanStopWords :: "string list"
  englishStopWords :: "string list"
  genericAdWords :: "string list"

definition isStopWord :: "word_lists \<Rightarrow> string \<Rightarrow> bool" where
  "isStopWord wl w = (w \<in> set (germanStopWords wl) \<or> w \<in> set (englishStopWords wl))"

definition isGenericAdWord :: "word_lists \<Rightarrow> string \<Rightarrow> bool" where
  "isGenericAdWord wl w = (w \<in> set (genericAdWords wl))"

definition isBrandWord :: "string \<Rightarrow> string \<Rightarrow> string \<Rightarrow> bool" where
  "isBrandWord w brandLower brandNormalized =
     (w = brandLower
      \<or> stripSeparators w = brandNormalized
      \<or> includesStr brandLower w
      \<or> includesStr w brandLower)"

definition capitalize :: "string \<Rightarrow> string" where
  "capitalize w = (case w of [] \<Rightarrow> [] | c # cs \<Rightarrow> upperChar c @ cs)"

text \<open>
  The first \<open>replace\<close> of the tokenizer.  Its character class is negated and lists
  \<open>\w\<close>, the letters a, o and u with diaeresis in both cases, the sharp s, \<open>\s\<close> and
  the hyphen: every character that is none of these becomes a blank.
\<close>

definition isGermanLetter :: "char \<Rightarrow> bool" where
  "isGermanLetter c = (code c \<in> {228, 246, 252, 223, 196, 214, 220})"

definition keepChar :: "char \<Rightarrow> bool" where
  "keepChar c = (isWordChar c \<or> isGermanLetter c \<or> isSpace c \<or> c = CHR ''-'')"

definition replacePunct :: "string \<Rightarrow> string" where
  "replacePunct s = map (\<lambda>c. if keepChar c then c else CHR '' '') s"

text \<open>
  \<open>s.split(/\s+/)\<close>: the pieces between the maximal runs of white space; a run at the
  start or at the end leaves an empty piece there, and the empty string gives one empty
  piece.
\<close>

function splitWs :: "string \<Rightarrow> string list" where
  "splitWs s =
     (let tok = takeWhile (\<lambda>c. \<not> isSpace c) s;
          rest = dropWhile (\<lambda>c. \<not> isSpace c) s
      in if rest = [] then [tok] else tok # splitWs (dropWhile isSpace rest))"
  by pat_completeness auto
termination
proof (relation "measure length")
  show "wf (measure length)" by simp
next
  fix s :: string and tok rest
  assume r: "rest = dropWhile (\<lambda>c. \<not> isSpace c) s" and ne: "rest \<noteq> []"
  from r ne have h: "isSpace (hd rest)" by (metis hd_dropWhile)
  from ne h have "dropWhile isSpace rest = dropWhile isSpace (tl rest)"
    by (cases rest) auto
  moreover have "length (dropWhile isSpace (tl rest)) \<le> length (tl rest)"
    by (rule length_dropWhile_le)
  moreover have "length rest \<le> length s" unfolding r by (rule length_dropWhile_le)
  ultimately have "length (dropWhile isSpace rest) < length s" using ne by (cases rest) auto
  then show "(dropWhile isSpace rest, s) \<in> measure length" by simp
qed

declare splitWs.simps [simp del]

text \<open>\<open>/^\d+$/\<close> and \<open>/^\d/\<close>.\<close>

definition allDigits :: "string \<Rightarrow> bool" where
  "allDigits w = (w \<noteq> [] \<and> list_all isDigit w)"

definition startsWithDigit :: "string \<Rightarrow> bool" where
  "startsWithDigit w = (case w of [] \<Rightarrow> False | c # cs \<Rightarrow> isDigit c)"

text \<open>
  The chain of \<open>filter\<close> and \<open>map\<close> calls that both \<open>extractAndScoreWords\<close> and
  \<open>generateCompoundKeywords\<close> start with; the second leaves out the test for generic ad
  words.
\<close>

definition baseWords :: "word_lists \<Rightarrow> string \<Rightarrow> string list" where
  "baseWords wl txt =
     filter (\<lambda>w. \<not> isStopWord wl w)
       (filter (\<lambda>w. \<not> startsWithDigit w)
          (filter (\<lambda>w. \<not> allDigits w)
             (map (\<lambda>w. trim (toLowerCase w))
                (filter (\<lambda>w. 4 \<le> length w) (splitWs (replacePunct txt))))))"

definition scoredWords :: "word_lists \<Rightarrow> string \<Rightarrow> string \<Rightarrow> string \<Rightarrow> string list" where
  "scoredWords wl brandLower brandNormalized txt =
     filter (\<lambda>w. \<not> isBrandWord w brandLower brandNormalized)
       (filter (\<lambda>w. \<not> isGenericAdWord wl w) (baseWords wl txt))"

definition compoundWords :: "word_lists \<Rightarrow> string \<Rightarrow> string \<Rightarrow> string \<Rightarrow> string list" where
  "compoundWords wl brandLower brandNormalized txt =
     filter (\<lambda>w. \<not> isBrandWord w brandLower brandNormalized) (baseWords wl txt)"

datatype source = Body | Title | Description

record word_score =
  frequency :: nat
  sources :: "source list"

definition scoreWord ::
  "source \<Rightarrow> string \<Rightarrow> (string \<times> word_score) list \<Rightarrow> (string \<times> word_score) list" where
  "scoreWord src w scores =
     (case map_of scores w of
        Some existing \<Rightarrow>
          mapSet w \<lparr>frequency = frequency existing + 1,
                    sources = setAdd src (sources existing)\<rparr> scores
      | None \<Rightarrow> mapSet w \<lparr>frequency = 1, sources = [src]\<rparr> scores)"

definition extractAndScoreWords ::
  "word_lists \<Rightarrow> string \<Rightarrow> string \<Rightarrow> source \<Rightarrow> string \<Rightarrow> (string \<times> word_score) list \<Rightarrow>
   (string \<times> word_score) list"
where
  "extractAndScoreWords wl brandLower brandNormalized src txt scores =
     (if txt = [] then scores
      else fold (scoreWord src) (scoredWords wl brandLower brandNormalized txt) scores)"

text \<open>The bigrams of one text, in the order of the loop over \<open>i\<close>.\<close>

fun bigrams :: "word_lists \<Rightarrow> string list \<Rightarrow> string list" where
  "bigrams wl (a # b # rest) =
     (if isGenericAdWord wl a \<or> isGenericAdWord wl b \<or> a = b then bigrams wl (b # rest)
      else (capitalize a @ '' '' @ capitalize b) # bigrams wl (b # rest))"
| "bigrams wl ws = []"

record keyword_score =
  ks_keyword :: string
  ks_frequency :: nat
  ks_source :: "source option"

definition adCompoundTexts :: "meta_ad \<Rightarrow> string list" where
  "adCompoundTexts ad = ad_creative_bodies ad @ ad_creative_link_titles ad"

definition generateCompoundKeywords ::
  "word_lists \<Rightarrow> meta_ad list \<Rightarrow> string \<Rightarrow> string \<Rightarrow> keyword_score list"
where
  "generateCompoundKeywords wl ads brandLower brandNormalized =
     (let bigramCounts =
            fold bump
              (concat (map (\<lambda>txt. bigrams wl (compoundWords wl brandLower brandNormalized txt))
                         (concat (map adCompoundTexts ads))))
              []
      in map (\<lambda>e. \<lparr>ks_keyword = fst e, ks_frequency = snd e, ks_source = Some Body\<rparr>)
           (take 10 (sortByCountDesc (filter (\<lambda>e. 3 \<le> snd e) bigramCounts))))"

text \<open>The three loops over the texts of one ad.\<close>

definition scoreAd ::
  "word_lists \<Rightarrow> string \<Rightarrow> string \<Rightarrow> meta_ad \<Rightarrow> (string \<times> word_score) list \<Rightarrow>
   (string \<times> word_score) list"
where
  "scoreAd wl brandLower brandNormalized ad scores =
     fold (extractAndScoreWords wl brandLower brandNormalized Description)
       (ad_creative_link_descriptions ad)
       (fold (extractAndScoreWords wl brandLower brandNormalized Title)
          (ad_creative_link_titles ad)
          (fold (extractAndScoreWords wl brandLower brandNormalized Body)
             (ad_creative_bodies ad) scores))"

text \<open>
  \<open>Math.max(3, Math.ceil(ads.length * 0.005))\<close>.  The double nearest to \<open>0.005\<close> exceeds it
  by about \<open>10\<^sup>-\<^sup>1\<^sup>9\<close>, too little to move the rounded product across a whole number, so the
  ceiling is that of \<open>n / 200\<close>.
\<close>

definition minFrequency :: "nat \<Rightarrow> nat" where
  "minFrequency n = max 3 ((n + 199) div 200)"

text \<open>\<open>s.split(' ')\<close>.\<close>

fun splitBlank :: "string \<Rightarrow> string list" where
  "splitBlank [] = [[]]"
| "splitBlank (c # cs) =
     (if c = CHR '' '' then [] # splitBlank cs
      else (case splitBlank cs of
              p # ps \<Rightarrow> (c # p) # ps
            | [] \<Rightarrow> [[c]]))"

record keyword_result =
  kr_keywords :: "string list"
  keyword_scores :: "keyword_score list"
  total_ads_analyzed :: nat

text \<open>The loop that puts the single keywords first.\<close>

definition addSingle ::
  "nat \<Rightarrow> keyword_score \<Rightarrow> string list \<times> keyword_score list \<Rightarrow>
   string list \<times> keyword_score list"
where
  "addSingle maxKeywords ks acc =
     (if length (fst acc) < maxKeywords \<and> ks_keyword ks \<notin> set (fst acc)
      then (fst acc @ [ks_keyword ks], snd acc @ [ks])
      else acc)"

text \<open>The loop that fills up with compound keywords.\<close>

definition addCompound ::
  "nat \<Rightarrow> keyword_score \<Rightarrow> string list \<times> keyword_score list \<Rightarrow>
   string list \<times> keyword_score list"
where
  "addCompound maxKeywords ck acc =
     (if maxKeywords \<le> length (fst acc) then acc
      else
        (let parts = splitBlank (toLowerCase (ks_keyword ck));
             bothPartsInSingles =
               list_all (\<lambda>p. list_ex (\<lambda>fk. toLowerCase fk = p) (fst acc)) parts
         in if \<not> bothPartsInSingles \<and> ks_keyword ck \<notin> set (fst acc)
            then (fst acc @ [ks_keyword ck], snd acc @ [ck])
            else acc))"

definition singleKeywords ::
  "word_lists \<Rightarrow> meta_ad list \<Rightarrow> string \<Rightarrow> nat \<Rightarrow> keyword_score list"
where
  "singleKeywords wl ads brandName maxKeywords =
     (let brandLower = toLowerCase brandName;
          brandNormalized = stripSeparators brandLower;
          wordScores = fold (scoreAd wl brandLower brandNormalized) ads [];
          sorted = take maxKeywords
            (sort_key (\<lambda>e. - int (frequency (snd e)))
               (filter (\<lambda>e. minFrequency (length ads) \<le> frequency (snd e)) wordScores))
      in map (\<lambda>e. \<lparr>ks_keyword = fst e, ks_frequency = frequency (snd e),
                    ks_source = (case sources (snd e) of [] \<Rightarrow> None | src # rest \<Rightarrow> Some src)\<rparr>)
           sorted)"

definition generateKeywords ::
  "word_lists \<Rightarrow> meta_ad list \<Rightarrow> string \<Rightarrow> nat \<Rightarrow> keyword_result"
where
  "generateKeywords wl ads brandName maxKeywords =
     (let brandLower = toLowerCase brandName;
          brandNormalized = stripSeparators brandLower;
          singles = singleKeywords wl ads brandName maxKeywords;
          compoundKeywords = generateCompoundKeywords wl ads brandLower brandNormalized;
          final = fold (addCompound maxKeywords) compoundKeywords
                    (fold (addSingle maxKeywords) singles ([], []))
      in \<lparr>kr_keywords = fst final, keyword_scores = snd final,
          total_ads_analyzed = length ads\<rparr>)"

text \<open>
  The tokens of the ad texts, before any filter: every text of the bodies, link titles
  and link descriptions is stripped of punctuation, split at white space and
  lower-cased.  \<open>occurrences\<close> counts how often a word is among them.
\<close>

definition adTexts :: "meta_ad \<Rightarrow> string list" where
  "adTexts ad =
     ad_creative_bodies ad @ ad_creative_link_titles ad @ ad_creative_link_descriptions ad"

definition textTokens :: "string \<Rightarrow> string list" where
  "textTokens txt = map toLowerCase (splitWs (replacePunct txt))"

definition occurrences :: "meta_ad list \<Rightarrow> string \<Rightarrow> nat" where
  "occurrences ads w = count_list (concat (map textTokens (concat (map adTexts ads)))) w"

section \<open>Step 2: the brand's domain\<close>

text \<open>\<open>s.split(sep)[0]\<close> for a separator that is not empty.\<close>

fun beforeFirst :: "string \<Rightarrow> string \<Rightarrow> string" where
  "beforeFirst sep [] = []"
| "beforeFirst sep (c # cs) = (if startsWith (c # cs) sep then [] else c # beforeFirst sep cs)"

text \<open>\<open>s.replace(sub, '')\<close> for a string \<open>sub\<close>: its first occurrence is removed.\<close>

fun removeFirst :: "string \<Rightarrow> string \<Rightarrow> string" where
  "removeFirst sub [] = []"
| "removeFirst sub (c # cs) =
     (if startsWith (c # cs) sub then drop (length sub) (c # cs) else c # removeFirst sub cs)"

text \<open>
  \<open>s.replace(/\.[^.]+$/, '')\<close> and \<open>s.replace(/\.[a-z]+$/, '')\<close>.  A match starts at the
  last dot of \<open>s\<close>: what follows that dot must not be empty and, for the second
  expression, must consist of the letters \<open>a-z\<close>.
\<close>

definition afterLastDot :: "string \<Rightarrow> string" where
  "afterLastDot s = rev (takeWhile (\<lambda>c. c \<noteq> CHR ''.'') (rev s))"

definition beforeLastDot :: "string \<Rightarrow> string" where
  "beforeLastDot s = take (length s - length (afterLastDot s) - 1) s"

definition stripLastLabel :: "string \<Rightarrow> string" where
  "stripLastLabel s =
     (if CHR ''.'' \<in> set s \<and> afterLastDot s \<noteq> [] then beforeLastDot s else s)"

definition stripTld :: "string \<Rightarrow> string" where
  "stripTld s =
     (if CHR ''.'' \<in> set s \<and> afterLastDot s \<noteq> [] \<and> list_all isLowerAZ (afterLastDot s)
      then beforeLastDot s else s)"

text \<open>
  \<open>s.replace(/\s*[-|...].*$/, '')\<close>, where the class holds the hyphen, the bar, the middle
  dot (\<open>0xB7\<close>) and the en and em dashes, which are outside the modelled range.  The
  match starts at the first position from which white space, one character of the class
  and then no line terminator up to the end follow.
\<close>

definition isSubtitleSep :: "char \<Rightarrow> bool" where
  "isSubtitleSep c = (c = CHR ''-'' \<or> c = CHR ''|'' \<or> code c = 183)"

definition isLineTerminator :: "char \<Rightarrow> bool" where
  "isLineTerminator c = (code c = 10 \<or> code c = 13)"

definition subtitleAt :: "string \<Rightarrow> bool" where
  "subtitleAt s =
     (case dropWhile isSpace s of
        [] \<Rightarrow> False
      | c # rest \<Rightarrow> isSubtitleSep c \<and> list_all (\<lambda>x. \<not> isLineTerminator x) rest)"

fun stripSubtitle :: "string \<Rightarrow> string" where
  "stripSubtitle [] = []"
| "stripSubtitle (c # cs) = (if subtitleAt (c # cs) then [] else c # stripSubtitle cs)"

text \<open>
  The aliases made from the brand name.  Of the five separators of the source, the two
  with an en dash or an em dash cannot occur in a modelled string and are left out.
\<close>

definition aliasSeparators :: "string list" where
  "aliasSeparators = ['' - '', '' | '', [CHR '' '', CHR 0xB7, CHR '' '']]"

definition addFirstPart :: "string \<Rightarrow> string \<Rightarrow> string list \<Rightarrow> string list" where
  "addFirstPart fullNameLower sep aliases =
     (if includesStr fullNameLower sep then
        (let firstPart = trim (beforeFirst sep fullNameLower)
         in if 3 \<le> length firstPart then setAdd firstPart aliases else aliases)
      else aliases)"

definition nameAliases :: "string \<Rightarrow> string list" where
  "nameAliases brandName =
     (let fullNameLower = trim (toLowerCase brandName);
          aliases = fold (addFirstPart fullNameLower) aliasSeparators [fullNameLower];
          shortName = trim (stripSubtitle fullNameLower)
      in if 3 \<le> length shortName then setAdd shortName aliases else aliases)"

text \<open>The pages of the brand's ads with their names and ad counts.\<close>

definition countPage :: "meta_ad \<Rightarrow> (string \<times> string \<times> nat) list \<Rightarrow> (string \<times> string \<times> nat) list" where
  "countPage ad pageMap =
     (case (page_id ad, page_name ad) of
        (Some pid, Some pname) \<Rightarrow>
          if pid \<noteq> [] \<and> pname \<noteq> [] then
            (case map_of pageMap pid of
               Some (n, c) \<Rightarrow> mapSet pid (n, c + 1) pageMap
             | None \<Rightarrow> mapSet pid (pname, 1) pageMap)
          else pageMap
      | _ \<Rightarrow> pageMap)"

definition isOfficialName :: "string \<Rightarrow> string \<Rightarrow> bool" where
  "isOfficialName brandLower pname =
     (includesStr (toLowerCase pname) brandLower
      \<or> includesStr brandLower (stripSpaces (toLowerCase pname)))"

definition officialPageIds :: "string \<Rightarrow> meta_ad list \<Rightarrow> string list" where
  "officialPageIds brandName brandAds =
     (let pageMap = fold countPage brandAds [];
          named = map fst (filter (\<lambda>e. isOfficialName (toLowerCase brandName) (fst (snd e)))
                            pageMap)
      in if named = [] then
           (case sort_key (\<lambda>e. - int (snd (snd e))) pageMap of
              [] \<Rightarrow> []
            | e # rest \<Rightarrow> [fst e])
         else named)"

text \<open>The domain named most often in the captions of the brand's ads.\<close>

definition captionDomains :: "meta_ad list \<Rightarrow> string list" where
  "captionDomains ads =
     List.map_filter extractDomainFromCaption (concat (map ad_creative_link_captions ads))"

definition mostCommonDomain :: "meta_ad list \<Rightarrow> string option" where
  "mostCommonDomain brandAds =
     (case sortByCountDesc (fold bump (captionDomains brandAds) []) of
        [] \<Rightarrow> None
      | e # rest \<Rightarrow> Some (fst e))"

text \<open>
  What the Shopify detection adds to the brand info.  A detection that throws is caught
  and changes nothing.
\<close>

definition pushIf :: "string option \<Rightarrow> (string \<Rightarrow> string) \<Rightarrow> string list \<Rightarrow> string list" where
  "pushIf v f xs = (case v of None \<Rightarrow> xs | Some x \<Rightarrow> if x = [] then xs else xs @ [f x])"

definition applyShopify :: "shopify_detection \<Rightarrow> brand_info \<Rightarrow> brand_info" where
  "applyShopify shopify info =
     (let info1 = info\<lparr>brand_platform := Some (sd_platform shopify)\<rparr> in
      if is_shopify shopify then
        info1\<lparr>shopify_store := store_name shopify,
               vendor_name := sd_vendor_name shopify,
               brand_aliases :=
                 pushIf (og_site_name shopify) toLowerCase
                   (pushIf (sd_vendor_name shopify) toLowerCase
                      (pushIf (myshopify_domain shopify)
                         (\<lambda>d. toLowerCase (removeFirst ''.myshopify.com'' d))
                         (brand_aliases info1)))\<rparr>
      else info1)"

definition findBrandDomain :: "web \<Rightarrow> string \<Rightarrow> meta_ad list \<Rightarrow> brand_info traced" where
  "findBrandDomain w brandName brandAds =
     (let info = \<lparr>brand_name = brandName, brand_domain = None,
                   brand_aliases = nameAliases brandName, shopify_store = None,
                   vendor_name = None, brand_platform = None, official_page_ids = [],
                   brand_payers = None\<rparr>
      in if brandAds = [] then (info, [])
         else
           (let info1 = info\<lparr>official_page_ids := officialPageIds brandName brandAds\<rparr> in
            (case mostCommonDomain brandAds of
               None \<Rightarrow> (info1\<lparr>brand_aliases := dedupe (brand_aliases info1)\<rparr>, [])
             | Some d \<Rightarrow>
                 (let domainWithoutTld = toLowerCase (stripLastLabel d);
                      info2 = info1\<lparr>brand_domain := Some d,
                                     brand_aliases :=
                                       (if 3 \<le> length domainWithoutTld
                                           \<and> domainWithoutTld \<notin> set (brand_aliases info1)
                                        then brand_aliases info1 @ [domainWithoutTld]
                                        else brand_aliases info1)\<rparr>;
                      info3 = (case detect_shopify w d of
                                 Inl e \<Rightarrow> info2
                               | Inr shopify \<Rightarrow> applyShopify shopify info2)
                  in (info3\<lparr>brand_aliases := dedupe (brand_aliases info3)\<rparr>,
                      [DetectShopify d])))))"

section \<open>Step 2b: priority candidates from the brand search\<close>

text \<open>
  The spam patterns.  Those for domains are literal and case-insensitive; \<open>^sex\.\<close> is
  a test at the start, \<open>\.sex$\<close> one at the end, the others are substring tests.
\<close>

definition isSpamDomain :: "string \<Rightarrow> bool" where
  "isSpamDomain d =
     (let l = toLowerCase d in
      startsWith l ''sex.'' \<or> endsWith l ''.sex''
      \<or> list_ex (includesStr l)
           [''porn'', ''xxx'', ''adult'', ''spicygirl'', ''videochat'', ''dating.'', ''hookup'',
            ''casino'', ''gambling'', ''lottery'', ''slots.'', ''malware'', ''phishing''])"

definition fourDigits :: "string \<Rightarrow> bool" where
  "fourDigits s = (4 \<le> length s \<and> list_all isDigit (take 4 s))"

text \<open>\<open>/^[A-Z][a-z]+ [A-Z]\d+ \d{4}/\<close>\<close>

definition spamName1 :: "string \<Rightarrow> bool" where
  "spamName1 s =
     (case s of
        [] \<Rightarrow> False
      | c # r \<Rightarrow>
          isUpperAZ c \<and> takeWhile isLowerAZ r \<noteq> []
          \<and> (case dropWhile isLowerAZ r of
                sp # u # r2 \<Rightarrow>
                  sp = CHR '' '' \<and> isUpperAZ u \<and> takeWhile isDigit r2 \<noteq> []
                  \<and> (case dropWhile isDigit r2 of
                        [] \<Rightarrow> False
                      | sp2 # r4 \<Rightarrow> sp2 = CHR '' '' \<and> fourDigits r4)
              | _ \<Rightarrow> False))"

text \<open>\<open>/^[A-Z]{2,4} [a-z]\d{2,} \d{4}/\<close>\<close>

definition spamName2 :: "string \<Rightarrow> bool" where
  "spamName2 s =
     (let ups = takeWhile isUpperAZ s in
      2 \<le> length ups \<and> length ups \<le> 4
      \<and> (case dropWhile isUpperAZ s of
            sp # l # r \<Rightarrow>
              sp = CHR '' '' \<and> isLowerAZ l \<and> 2 \<le> length (takeWhile isDigit r)
              \<and> (case dropWhile isDigit r of
                    [] \<Rightarrow> False
                  | sp2 # r4 \<Rightarrow> sp2 = CHR '' '' \<and> fourDigits r4)
          | _ \<Rightarrow> False))"

text \<open>\<open>/\d{4}-\d+$/\<close>: reading from the end, digits, a hyphen and four digits.\<close>

definition spamName3 :: "string \<Rightarrow> bool" where
  "spamName3 s =
     (takeWhile isDigit (rev s) \<noteq> []
      \<and> (case dropWhile isDigit (rev s) of
            [] \<Rightarrow> False
          | h # r \<Rightarrow> h = CHR ''-'' \<and> fourDigits r))"

text \<open>\<open>/^Feel my [A-Z] CUP/i\<close>\<close>

definition spamName4 :: "string \<Rightarrow> bool" where
  "spamName4 s =
     (let l = toLowerCase s in
      startsWith l ''feel my '' \<and> 8 < length l \<and> isLowerAZ (l ! 8)
      \<and> take 4 (drop 9 l) = '' cup'')"

definition isSpamPageName :: "string \<Rightarrow> bool" where
  "isSpamPageName pageName =
     (spamName1 pageName \<or> spamName2 pageName \<or> spamName3 pageName \<or> spamName4 pageName)"

definition PLATFORM_DOMAINS :: "string list" where
  "PLATFORM_DOMAINS =
     [''facebook.com'', ''fb.com'', ''fbcdn.net'', ''instagram.com'',
      ''meta.com'', ''meta.ai'', ''facebook.net'', ''threads.net'',
      ''whatsapp.com'', ''messenger.com'', ''google.com'', ''youtube.com'',
      ''tiktok.com'', ''twitter.com'', ''x.com'', ''linkedin.com'',
      ''pinterest.com'', ''snapchat.com'']"

definition isPlatformDomain :: "string \<Rightarrow> bool" where
  "isPlatformDomain d = list_ex (\<lambda>pd. d = pd \<or> endsWith d (''.'' @ pd)) PLATFORM_DOMAINS"

text \<open>
  Some alias, with its separators removed, has at least three characters and occurs in
  the domain.
\<close>

definition hasNormalizedAlias :: "brand_info \<Rightarrow> string \<Rightarrow> bool" where
  "hasNormalizedAlias brandInfo d =
     list_ex (\<lambda>alias. 3 \<le> length (stripSeparators alias)
                       \<and> includesStr d (stripSeparators alias))
       (brand_aliases brandInfo)"

text \<open>The ads of the brand search grouped by page, with the page name of the first ad.\<close>

definition groupAd :: "meta_ad \<Rightarrow> (string \<times> string \<times> meta_ad list) list \<Rightarrow>
    (string \<times> string \<times> meta_ad list) list" where
  "groupAd ad pageAds =
     (case page_id ad of
        None \<Rightarrow> pageAds
      | Some pid \<Rightarrow>
          if pid = [] then pageAds
          else (case map_of pageAds pid of
                  Some (n, ads) \<Rightarrow> mapSet pid (n, ads @ [ad]) pageAds
                | None \<Rightarrow> mapSet pid (orElse (page_name ad) ''Unknown'', [ad]) pageAds))"

definition payerNames :: "beneficiary_payer \<Rightarrow> string list" where
  "payerNames bp =
     (if truthy (beneficiary bp) then [trim (toLowerCase (the (beneficiary bp)))] else [])
     @ (if truthy (payer bp) then [trim (toLowerCase (the (payer bp)))] else [])"

definition brandPayers ::
  "brand_info \<Rightarrow> (string \<times> string \<times> meta_ad list) list \<Rightarrow> string list" where
  "brandPayers brandInfo pageAds =
     dedupe (concat (map payerNames
       (concat (map beneficiary_payers
          (concat (map (\<lambda>pid. case map_of pageAds pid of
                                 None \<Rightarrow> [] | Some (n, ads) \<Rightarrow> ads)
                     (official_page_ids brandInfo)))))))"

record brand_search_result =
  confirmedThirdPartyPageIds :: "(string \<times> string) list"
  priorityDomains :: "string list"

text \<open>The body of the loop over the pages that are not official.\<close>

definition pageStep ::
  "brand_info \<Rightarrow> string \<Rightarrow> string \<times> string \<times> meta_ad list \<Rightarrow> brand_search_result \<Rightarrow>
   brand_search_result"
where
  "pageStep brandInfo brandDomain entry acc =
     (let pageId = fst entry; name = fst (snd entry); ads = snd (snd entry) in
      if pageId \<in> set (official_page_ids brandInfo) then acc
      else
        (let pageDomains = dedupe (map toLowerCase (captionDomains ads));
             thirdPartyDomains =
               filter (\<lambda>d. d \<noteq> brandDomain \<and> \<not> isPlatformDomain d
                            \<and> \<not> hasNormalizedAlias brandInfo d) pageDomains
         in if thirdPartyDomains = [] then
              (if brandDomain \<in> set pageDomains
               then acc\<lparr>confirmedThirdPartyPageIds :=
                          mapSet pageId name (confirmedThirdPartyPageIds acc)\<rparr>
               else acc)
            else if isSpamPageName name then acc
            else acc\<lparr>priorityDomains :=
                       fold setAdd (filter (\<lambda>d. \<not> isSpamDomain d) thirdPartyDomains)
                         (priorityDomains acc)\<rparr>))"

text \<open>
  \<open>detectBrandSearchThirdParty\<close> also stores the payers of the official pages in the
  brand info, so the model returns the brand info as well.
\<close>

definition detectBrandSearchThirdParty ::
  "meta_ad list \<Rightarrow> brand_info \<Rightarrow> brand_search_result \<times> brand_info" where
  "detectBrandSearchThirdParty brandAds brandInfo =
     (case brand_domain brandInfo of
        None \<Rightarrow> (\<lparr>confirmedThirdPartyPageIds = [], priorityDomains = []\<rparr>, brandInfo)
      | Some bd \<Rightarrow>
          if bd = [] then (\<lparr>confirmedThirdPartyPageIds = [], priorityDomains = []\<rparr>, brandInfo)
          else
            (let pageAds = fold groupAd brandAds [] in
             (fold (pageStep brandInfo (toLowerCase bd)) pageAds
                \<lparr>confirmedThirdPartyPageIds = [], priorityDomains = []\<rparr>,
              brandInfo\<lparr>brand_payers := Some (brandPayers brandInfo pageAds)\<rparr>)))"

section \<open>The pipeline\<close>

record discovery_options =
  country :: "string option"
  countries :: "string list option"
  opt_keywords :: "string list option"
  max_keyword_ads :: "nat option"
  max_keywords :: "nat option"
  max_brand_ads :: "nat option"
  max_domains_to_check :: "nat option"
  use_headless :: "bool option"
  use_headless_for_domains :: "bool option"
  access_token :: string
  opt_scrapingbee_key :: "string option"
  openai_key :: "string option"
  timeout_ms :: "nat option"

text \<open>
  The progress callback of the options is a notification without a result and is left
  out.  \<open>n || d\<close> on an optional number:
\<close>

definition numOr :: "nat option \<Rightarrow> nat \<Rightarrow> nat" where
  "numOr n d = (case n of None \<Rightarrow> d | Some v \<Rightarrow> if v = 0 then d else v)"

definition countriesOf :: "discovery_options \<Rightarrow> string list" where
  "countriesOf opts =
     (case countries opts of
        Some cs \<Rightarrow> cs
      | None \<Rightarrow> [orElse (country opts) ''DE''])"

text \<open>
  The deadline: \<open>None\<close> when \<open>timeout_ms\<close> is \<open>0\<close> (no deadline), and otherwise the start
  time plus \<open>timeout_ms || 55000\<close>.  \<open>pastDeadline\<close> reads the clock after the calls of the
  trace \<open>tr\<close>.
\<close>

definition deadlineOf :: "web \<Rightarrow> discovery_options \<Rightarrow> int option" where
  "deadlineOf w opts =
     (if timeout_ms opts = Some 0 then None
      else Some (clock w 0 + int (numOr (timeout_ms opts) 55000)))"

definition pastDeadline :: "web \<Rightarrow> int option \<Rightarrow> call list \<Rightarrow> nat \<Rightarrow> bool" where
  "pastDeadline w deadline tr bufferMs =
     (case deadline of
        None \<Rightarrow> False
      | Some d \<Rightarrow> clock w (length tr) > d - int bufferMs)"

text \<open>Step 2a: ads found by further searches are appended unless their id is known.\<close>

definition mergeAd :: "meta_ad \<Rightarrow> meta_ad list \<times> string list \<Rightarrow> meta_ad list \<times> string list" where
  "mergeAd ad acc =
     (if ad_id ad \<in> set (snd acc) then acc else (fst acc @ [ad], snd acc @ [ad_id ad]))"

definition brandSearch :: "string \<Rightarrow> discovery_options \<Rightarrow> search_params" where
  "brandSearch brandName opts =
     \<lparr>search_terms = brandName, ad_reached_countries = countriesOf opts,
      search_type = ''KEYWORD_EXACT_PHRASE'', ad_active_status = None,
      max_results = (case max_brand_ads opts of
                       None \<Rightarrow> 300
                     | Some n \<Rightarrow> if n = 0 then 300 else min n 300)\<rparr>"

definition domainBaseSearch :: "string \<Rightarrow> discovery_options \<Rightarrow> search_params" where
  "domainBaseSearch bd opts =
     \<lparr>search_terms = stripTld bd, ad_reached_countries = countriesOf opts,
      search_type = ''KEYWORD_UNORDERED'', ad_active_status = None,
      max_results = (case max_brand_ads opts of
                       None \<Rightarrow> 400
                     | Some n \<Rightarrow> if n = 0 then 400 else min n 400)\<rparr>"

definition domainSearch :: "string \<Rightarrow> discovery_options \<Rightarrow> search_params" where
  "domainSearch bd opts =
     \<lparr>search_terms = bd, ad_reached_countries = countriesOf opts,
      search_type = ''KEYWORD_UNORDERED'', ad_active_status = None, max_results = 200\<rparr>"

definition keywordSearch :: "string \<Rightarrow> discovery_options \<Rightarrow> search_params" where
  "keywordSearch keyword opts =
     \<lparr>search_terms = keyword, ad_reached_countries = countriesOf opts,
      search_type = ''KEYWORD_UNORDERED'', ad_active_status = Some ''ALL'',
      max_results = numOr (max_keyword_ads opts) 500\<rparr>"

text \<open>
  Step 2a as a whole.  An exception of a search ends the pipeline (\<open>Inl\<close>); the second
  search is skipped when less than 40 seconds are left.
\<close>

definition domainKeywordSearch ::
  "web \<Rightarrow> discovery_options \<Rightarrow> int option \<Rightarrow> string \<Rightarrow> meta_ad list \<Rightarrow> call list \<Rightarrow>
   (string + meta_ad list) traced"
where
  "domainKeywordSearch w opts deadline bd brandAds tr =
     (let q1 = domainBaseSearch bd opts; tr1 = tr @ [SearchAds q1] in
      case fetch_all_ads w q1 of
        Inl e \<Rightarrow> (Inl e, tr1)
      | Inr domainBaseAds \<Rightarrow>
          (let acc1 = fold mergeAd domainBaseAds (brandAds, dedupe (map ad_id brandAds)) in
           if pastDeadline w deadline tr1 40000 then (Inr (fst acc1), tr1)
           else
             (let q2 = domainSearch bd opts; tr2 = tr1 @ [SearchAds q2] in
              case fetch_all_ads w q2 of
                Inl e \<Rightarrow> (Inl e, tr2)
              | Inr fullDomainAds \<Rightarrow> (Inr (fst (fold mergeAd fullDomainAds acc1)), tr2))))"

text \<open>Step 3: the keywords, from the generator, the refinement and the options.\<close>

definition officialPageName :: "brand_info \<Rightarrow> meta_ad list \<Rightarrow> string \<Rightarrow> string" where
  "officialPageName brandInfo brandAds brandName =
     (case official_page_ids brandInfo of
        [] \<Rightarrow> brandName
      | first # rest \<Rightarrow>
          (case find (\<lambda>a. page_id a = Some first) brandAds of
             None \<Rightarrow> brandName
           | Some a \<Rightarrow> orElse (page_name a) brandName))"

definition chooseKeywords ::
  "web \<Rightarrow> word_lists \<Rightarrow> discovery_options \<Rightarrow> int option \<Rightarrow> string \<Rightarrow> brand_info \<Rightarrow>
   meta_ad list \<Rightarrow> call list \<Rightarrow> string list traced"
where
  "chooseKeywords w wl opts deadline brandName brandInfo brandAds tr =
     (let effectiveMaxKeywords = numOr (max_keywords opts) 10;
          candidates = kr_keywords
            (generateKeywords wl brandAds brandName (effectiveMaxKeywords * 3));
          userKeywords = (case opt_keywords opts of None \<Rightarrow> [] | Some ks \<Rightarrow> ks);
          useAi = (truthy (openai_key opts) \<and> candidates \<noteq> []
                   \<and> \<not> pastDeadline w deadline tr 35000);
          aiKeywords =
            (if useAi then
               (case refine_keywords w candidates brandName
                       (officialPageName brandInfo brandAds brandName) effectiveMaxKeywords of
                  Inl e \<Rightarrow> None
                | Inr r \<Rightarrow> r)
             else None);
          baseKeywords = (case aiKeywords of
                            Some ks \<Rightarrow> ks
                          | None \<Rightarrow> take effectiveMaxKeywords candidates);
          allKeywords = take effectiveMaxKeywords (dedupe (userKeywords @ baseKeywords))
      in (if allKeywords = [] then [brandName] else allKeywords,
          if useAi then tr @ [RefineKeywords candidates] else tr))"

text \<open>
  Step 4: one search per keyword.  A search that throws is skipped; after a search that
  returns, the loop waits 300 ms.
\<close>

definition addNewAd :: "meta_ad \<Rightarrow> (string \<times> meta_ad) list \<Rightarrow> (string \<times> meta_ad) list" where
  "addNewAd ad m = (if map_of m (ad_id ad) = None then mapSet (ad_id ad) ad m else m)"

definition META_API_DELAY_MS :: nat where
  "META_API_DELAY_MS = 300"

definition searchKeyword ::
  "web \<Rightarrow> discovery_options \<Rightarrow> string \<Rightarrow> (string \<times> meta_ad) list traced \<Rightarrow>
   (string \<times> meta_ad) list traced"
where
  "searchKeyword w opts keyword acc =
     (let q = keywordSearch keyword opts in
      case fetch_all_ads w q of
        Inl e \<Rightarrow> (fst acc, snd acc @ [SearchAds q])
      | Inr ads \<Rightarrow>
          (fold addNewAd ads (fst acc), snd acc @ [SearchAds q, Delay META_API_DELAY_MS]))"

definition searchAllAdsForKeywords ::
  "web \<Rightarrow> discovery_options \<Rightarrow> string list \<Rightarrow> call list \<Rightarrow> meta_ad list traced"
where
  "searchAllAdsForKeywords w opts kws tr =
     (let r = fold (searchKeyword w opts) kws ([], tr) in (map snd (fst r), snd r))"

text \<open>Step 5: the ads of both searches, one per id, the later ad replacing the earlier.\<close>

definition combineAds :: "meta_ad list \<Rightarrow> meta_ad list \<Rightarrow> meta_ad list" where
  "combineAds brandAds allAds =
     map snd (fold (\<lambda>ad m. mapSet (ad_id ad) ad m) allAds
                (fold (\<lambda>ad m. mapSet (ad_id ad) ad m) brandAds []))"

text \<open>
  Step 5b: for the pages confirmed in step 2b, the domains of their keyword ads that are
  not the brand's become priority domains.
\<close>

definition confirmedPageDomains :: "brand_info \<Rightarrow> meta_ad list \<Rightarrow> string \<Rightarrow> string list" where
  "confirmedPageDomains brandInfo allAds pageId =
     dedupe (filter (\<lambda>d. Some d \<noteq> map_option toLowerCase (brand_domain brandInfo)
                          \<and> \<not> hasNormalizedAlias brandInfo d)
               (map toLowerCase
                  (captionDomains (filter (\<lambda>ad. page_id ad = Some pageId) allAds))))"

definition resolveConfirmedPages ::
  "brand_info \<Rightarrow> meta_ad list \<Rightarrow> (string \<times> string) list \<Rightarrow> string list \<Rightarrow> string list"
where
  "resolveConfirmedPages brandInfo allAds confirmed priority =
     fold setAdd
       (filter (\<lambda>d. \<not> isSpamDomain d)
          (concat (map (\<lambda>e. if fst e = [] then []
                            else confirmedPageDomains brandInfo allAds (fst e))
                     confirmed)))
       priority"

text \<open>
  Step 5c: a page of the keyword ads that names a domain of the brand and other domains
  makes the other domains priority domains.
\<close>

definition addPageDomains :: "brand_info \<Rightarrow> meta_ad \<Rightarrow> (string \<times> string list) list \<Rightarrow>
    (string \<times> string list) list" where
  "addPageDomains brandInfo ad m =
     (case page_id ad of
        None \<Rightarrow> m
      | Some pid \<Rightarrow>
          if pid = [] \<or> pid \<in> set (official_page_ids brandInfo) then m
          else fold (\<lambda>d acc. mapSet pid
                       (setAdd (toLowerCase d) (case map_of acc pid of None \<Rightarrow> [] | Some ds \<Rightarrow> ds))
                       acc)
                 (captionDomains [ad]) m)"

definition isBrandish :: "brand_info \<Rightarrow> string \<Rightarrow> string \<Rightarrow> bool" where
  "isBrandish brandInfo brandDomain d = (d = brandDomain \<or> hasNormalizedAlias brandInfo d)"

definition crossReference ::
  "brand_info \<Rightarrow> string \<Rightarrow> meta_ad list \<Rightarrow> string list \<Rightarrow> string list" where
  "crossReference brandInfo brandDomain allAds priority =
     fold (\<lambda>e acc.
             if list_ex (isBrandish brandInfo brandDomain) (snd e)
             then fold setAdd
                    (filter (\<lambda>d. \<not> isSpamDomain d)
                       (filter (\<lambda>d. \<not> isBrandish brandInfo brandDomain d) (snd e)))
                    acc
             else acc)
       (fold (addPageDomains brandInfo) allAds []) priority"

text \<open>
  The order in which the candidates are checked: priority domains first, then by ad
  count; and the limit on their number (\<open>max_domains_to_check\<close>, 20 if absent, none if
  \<open>0\<close>).
\<close>

definition countOf :: "(string \<times> nat) list \<Rightarrow> string \<Rightarrow> nat" where
  "countOf m d = (case map_of m d of None \<Rightarrow> 0 | Some c \<Rightarrow> c)"

definition sortCandidates :: "string list \<Rightarrow> (string \<times> nat) list \<Rightarrow> string list \<Rightarrow> string list" where
  "sortCandidates priority adCount ds =
     sort_key (\<lambda>d. (if toLowerCase d \<in> set priority then (0::int) else 1,
                     - int (countOf adCount d))) ds"

definition limitCandidates :: "discovery_options \<Rightarrow> string list \<Rightarrow> string list" where
  "limitCandidates opts ds =
     (let maxDomainsToCheck = numOr (max_domains_to_check opts) 20 in
      if max_domains_to_check opts \<noteq> Some 0 \<and> maxDomainsToCheck < length ds
      then take maxDomainsToCheck ds else ds)"

text \<open>Step 5d: for every candidate domain the ads that name it, once per caption.\<close>

definition addDomainAds :: "(string \<times> string list) list \<Rightarrow> meta_ad \<Rightarrow> (string \<times> meta_ad list) list \<Rightarrow>
    (string \<times> meta_ad list) list" where
  "addDomainAds pageMap ad m =
     fold (\<lambda>d acc.
             if toLowerCase d \<noteq> [] \<and> map_of pageMap (toLowerCase d) \<noteq> None
             then mapSet (toLowerCase d)
                    ((case map_of acc (toLowerCase d) of None \<Rightarrow> [] | Some ads \<Rightarrow> ads) @ [ad])
                    acc
             else acc)
       (captionDomains [ad]) m"

definition domainToAds :: "(string \<times> string list) list \<Rightarrow> meta_ad list \<Rightarrow> (string \<times> meta_ad list) list" where
  "domainToAds pageMap allCombinedAds = fold (addDomainAds pageMap) allCombinedAds []"

text \<open>
  Step 5e: landing page URLs from ad snapshots.  For a domain, up to two ads with a
  snapshot URL are tried; the first URL found is counted for the domain.  The domains of
  a batch are handled one after the other here.
\<close>

definition extractedUrl :: "web \<Rightarrow> bool \<Rightarrow> string \<Rightarrow> string option" where
  "extractedUrl w useScrapingBee snapshot =
     (if useScrapingBee then
        (case scrape_with_headless w snapshot of
           Inl e \<Rightarrow> None
         | Inr r \<Rightarrow>
             if scrape_success r
             then (if truthy (scrape_final_url r) then scrape_final_url r else scrape_url r)
             else None)
      else (case extract_landing_page_url w snapshot of
              Inl e \<Rightarrow> None
            | Inr u \<Rightarrow> u))"

fun snapshotLoop ::
  "web \<Rightarrow> bool \<Rightarrow> string \<Rightarrow> string list \<Rightarrow> url_counts traced \<Rightarrow> url_counts traced"
where
  "snapshotLoop w useScrapingBee domainLower [] st = st"
| "snapshotLoop w useScrapingBee domainLower (snapshot # rest) st =
     (let tr = snd st @ [if useScrapingBee then ScrapeSnapshot snapshot
                         else ExtractLandingPageUrl snapshot]
      in case extractedUrl w useScrapingBee snapshot of
           None \<Rightarrow> snapshotLoop w useScrapingBee domainLower rest (fst st, tr)
         | Some u \<Rightarrow>
             if u = [] then snapshotLoop w useScrapingBee domainLower rest (fst st, tr)
             else (bumpUrl domainLower u (fst st), tr))"

definition enrichDomain ::
  "web \<Rightarrow> bool \<Rightarrow> (string \<times> meta_ad list) list \<Rightarrow> string \<Rightarrow> url_counts traced \<Rightarrow>
   url_counts traced"
where
  "enrichDomain w useScrapingBee adsMap d st =
     (case map_of adsMap (toLowerCase d) of
        None \<Rightarrow> st
      | Some ads \<Rightarrow>
          snapshotLoop w useScrapingBee (toLowerCase d)
            (take 2 (map (\<lambda>a. the (ad_snapshot_url a))
                       (filter (\<lambda>a. truthy (ad_snapshot_url a)) ads)))
            st)"

function enrichBatches ::
  "web \<Rightarrow> int option \<Rightarrow> bool \<Rightarrow> (string \<times> meta_ad list) list \<Rightarrow> string list \<Rightarrow>
   url_counts traced \<Rightarrow> url_counts traced"
where
  "enrichBatches w deadline useScrapingBee adsMap ds st =
     (let ENRICH_CONCURRENCY = (if useScrapingBee then 3 else 5) in
      if ds = [] then st
      else if pastDeadline w deadline (snd st) 15000 then st
      else enrichBatches w deadline useScrapingBee adsMap (drop ENRICH_CONCURRENCY ds)
             (fold (enrichDomain w useScrapingBee adsMap) (take ENRICH_CONCURRENCY ds) st))"
  by pat_completeness auto
termination
  by (relation "measure (\<lambda>(w, deadline, useScrapingBee, adsMap, ds, st). length ds)") auto

declare enrichBatches.simps [simp del]

definition enrichStage ::
  "web \<Rightarrow> discovery_options \<Rightarrow> int option \<Rightarrow> (string \<times> meta_ad list) list \<Rightarrow> string list \<Rightarrow>
   url_counts traced \<Rightarrow> url_counts traced"
where
  "enrichStage w opts deadline adsMap thirdPartyDomains st =
     (if pastDeadline w deadline (snd st) 20000 then st
      else
        (let useScrapingBee = truthy (opt_scrapingbee_key opts);
             maxEnrich =
               (if useScrapingBee then (if timeout_ms opts = Some 0 then 30 else 6)
                else min (numOr (max_domains_to_check opts) 20) 20)
         in enrichBatches w deadline useScrapingBee adsMap (take maxEnrich thirdPartyDomains) st))"

text \<open>
  Step 6: the candidates are checked in batches of five.  Before a batch the deadline is
  tested with a buffer of three seconds and the loop is left when it has passed; between
  two batches the loop waits 100 ms.  The checks of a batch are handled one after the
  other here.
\<close>

record check_state =
  matchedDomains :: "domain_brand_check list"
  detectionMethods :: "(match_type \<times> nat) list"
  checkedCount :: nat
  debugDomainChecks :: "check_log list"

definition DOMAIN_CHECK_CONCURRENCY :: nat where
  "DOMAIN_CHECK_CONCURRENCY = 5"

record check_context =
  cc_options :: discovery_options
  cc_brand :: brand_info
  cc_pages :: "(string \<times> string list) list"
  cc_counts :: "(string \<times> nat) list"
  cc_ads :: "(string \<times> meta_ad list) list"
  cc_urls :: url_counts
  cc_priority :: "string list"

definition checkCandidate :: "web \<Rightarrow> check_context \<Rightarrow> string \<Rightarrow> domain_brand_check traced" where
  "checkCandidate w cc d =
     (let r = checkDomainForBrand w d (cc_brand cc)
                \<lparr>scrapingbee_key = opt_scrapingbee_key (cc_options cc),
                 domainAds = map_of (cc_ads cc) (toLowerCase d),
                 optFullUrls = map_of (cc_urls cc) (toLowerCase d)\<rparr>
      in ((fst r)\<lparr>page_ids := (case map_of (cc_pages cc) d of None \<Rightarrow> [] | Some ps \<Rightarrow> ps),
                   ad_count := countOf (cc_counts cc) d\<rparr>,
          snd r))"

text \<open>What the loop over the results of a batch does with one result.\<close>

definition recordCheck :: "check_context \<Rightarrow> string \<Rightarrow> domain_brand_check \<Rightarrow> check_state \<Rightarrow> check_state" where
  "recordCheck cc d result st =
     (let entry = \<lparr>cl_domain = d,
                   cl_priority = (toLowerCase d \<in> set (cc_priority cc)),
                   cl_result = (if is_match result
                                then Some (match_kind result, confidence result) else None),
                   cl_urls = map_option (\<lambda>m. take 3 (map fst m))
                               (map_of (cc_urls cc) (toLowerCase d))\<rparr>;
          st1 = st\<lparr>checkedCount := checkedCount st + 1,
                   debugDomainChecks := debugDomainChecks st @ [entry]\<rparr>
      in if is_match result
         then st1\<lparr>matchedDomains := matchedDomains st1 @ [result],
                  detectionMethods := bump (match_kind result) (detectionMethods st1)\<rparr>
         else st1)"

definition checkBatch :: "web \<Rightarrow> check_context \<Rightarrow> string list \<Rightarrow> check_state traced \<Rightarrow> check_state traced" where
  "checkBatch w cc batch st =
     (let results = map (checkCandidate w cc) batch in
      (fold (\<lambda>p acc. recordCheck cc (fst p) (snd p) acc) (zip batch (map fst results)) (fst st),
       snd st @ concat (map snd results)))"

function checkBatches ::
  "web \<Rightarrow> int option \<Rightarrow> check_context \<Rightarrow> string list \<Rightarrow> check_state traced \<Rightarrow> check_state traced"
where
  "checkBatches w deadline cc ds st =
     (if ds = [] then st
      else if pastDeadline w deadline (snd st) 3000 then st
      else
        (let st1 = checkBatch w cc (take DOMAIN_CHECK_CONCURRENCY ds) st;
             rest = drop DOMAIN_CHECK_CONCURRENCY ds
         in checkBatches w deadline cc rest
              (if rest \<noteq> [] then (fst st1, snd st1 @ [Delay 100]) else st1)))"
  by pat_completeness auto
termination
  by (relation "measure (\<lambda>(w, deadline, cc, ds, st). length ds)")
     (auto simp: DOMAIN_CHECK_CONCURRENCY_def)

declare checkBatches.simps [simp del]

definition MIN_CONFIDENCE :: confidence where
  "MIN_CONFIDENCE = 0.70"

text \<open>
  Steps 5 to 7, from the ads of all searches to the report.  The domain checks are
  skipped as a whole when less than ten seconds are left.
\<close>

definition verifyAndBuild ::
  "web \<Rightarrow> discovery_options \<Rightarrow> int option \<Rightarrow> string \<Rightarrow> brand_info \<Rightarrow> string \<Rightarrow>
   brand_search_result \<Rightarrow> meta_ad list \<Rightarrow> meta_ad list \<Rightarrow> string list \<Rightarrow> call list \<Rightarrow>
   discovery_response traced"
where
  "verifyAndBuild w opts deadline brandName brandInfo bd bsr brandAds allAds allKeywords tr =
     (let allCombinedAds = combineAds brandAds allAds;
          ext = extractUniqueDomains allCombinedAds brandInfo;
          priority = crossReference brandInfo (toLowerCase bd) allAds
                       (resolveConfirmedPages brandInfo allAds
                          (confirmedThirdPartyPageIds bsr) (priorityDomains bsr));
          candidates = limitCandidates opts
                         (sortCandidates priority (domainAdCount ext)
                            (map fst (domainPageMap ext)));
          adsMap = domainToAds (domainPageMap ext) allCombinedAds;
          enriched = enrichStage w opts deadline adsMap candidates (domainFullUrls ext, tr);
          thirdPartyDomains =
            (if pastDeadline w deadline (snd enriched) 10000 then [] else candidates);
          cc = \<lparr>cc_options = opts, cc_brand = brandInfo, cc_pages = domainPageMap ext,
                cc_counts = domainAdCount ext, cc_ads = adsMap, cc_urls = fst enriched,
                cc_priority = priority\<rparr>;
          checked = checkBatches w deadline cc thirdPartyDomains
                      (\<lparr>matchedDomains = [], detectionMethods = [], checkedCount = 0,
                        debugDomainChecks = []\<rparr>, snd enriched);
          allMatches = filter (\<lambda>m. \<not> confidence m < MIN_CONFIDENCE)
                         (matchedDomains (fst checked));
          result = buildDiscoveryResult (parse_url w) (clock w (length (snd checked)))
                     brandName brandInfo allMatches allAds (allPages ext) allKeywords
                     (detectionMethods (fst checked)) (clock w 0) (length thirdPartyDomains)
                     brandAds (fst enriched)
      in (result\<lparr>debug := Some
            \<lparr>dbg_brand_aliases = brand_aliases brandInfo,
             brand_ads_count = length brandAds,
             keyword_ads_count = length allAds,
             combined_ads_count = length allCombinedAds,
             total_domains_found = length (domainPageMap ext),
             priority_domains_count = length priority,
             priority_domains = take 30 priority,
             domains_checked = debugDomainChecks (fst checked),
             domains_skipped_timeout =
               length thirdPartyDomains - checkedCount (fst checked)\<rparr>\<rparr>,
          snd checked))"

text \<open>
  \<open>discoverBrand\<close>.  The three searches of steps 2 and 2a are the calls whose exception
  reaches the \<open>catch\<close> of the pipeline; its message becomes the error of the response.
\<close>

definition noBrandDomain :: string where
  "noBrandDomain = ''Could not find brand domain from Meta ads''"

definition discoverBrand ::
  "web \<Rightarrow> word_lists \<Rightarrow> string \<Rightarrow> discovery_options \<Rightarrow> discovery_response traced"
where
  "discoverBrand w wl brandName opts =
     (let deadline = deadlineOf w opts;
          q = brandSearch brandName opts
      in case fetch_all_ads w q of
           Inl e \<Rightarrow> (makeErrorResponse brandName e, [SearchAds q])
         | Inr brandAds0 \<Rightarrow>
             (let found0 = findBrandDomain w brandName brandAds0;
                  tr1 = SearchAds q # snd found0
              in case brand_domain (fst found0) of
                   None \<Rightarrow> (makeErrorResponse brandName noBrandDomain, tr1)
                 | Some bd \<Rightarrow>
                     if bd = [] then (makeErrorResponse brandName noBrandDomain, tr1)
                     else
                       (case domainKeywordSearch w opts deadline bd brandAds0 tr1 of
                          (Inl e, tr2) \<Rightarrow> (makeErrorResponse brandName e, tr2)
                        | (Inr brandAds, tr2) \<Rightarrow>
                            (let bs = detectBrandSearchThirdParty brandAds (fst found0);
                                 kws = chooseKeywords w wl opts deadline brandName (snd bs)
                                         brandAds tr2;
                                 ads = searchAllAdsForKeywords w opts (fst kws) (snd kws)
                             in verifyAndBuild w opts deadline brandName (snd bs) bd (fst bs)
                                  brandAds (fst ads) (fst kws) (snd ads)))))"

section \<open>The worker's request handler\<close>

text \<open>
  The body of a request is the parsed JSON object; a field that is absent is \<open>None\<close>.
  A request to \<open>/api/batch\<close> carries the list \<open>brands\<close> of such bodies.
\<close>

record brand_request =
  rq_brand :: "string option"
  rq_country :: "string option"
  rq_countries :: "string list option"
  rq_keywords :: "string list option"
  rq_max_keyword_ads :: "nat option"
  rq_force_refresh :: "bool option"

datatype http_method = GET | POST | OPTIONS | OtherMethod

record http_request =
  req_method :: http_method
  req_path :: string
  req_authorization :: "string option"
  req_body :: brand_request
  req_brands :: "brand_request list option"

datatype job_status = Queued | Running | JobCompleted | JobFailed

record job =
  job_id :: string
  job_brand :: "string option"
  job_request :: brand_request
  job_status :: job_status
  job_result :: "discovery_response option"
  job_error :: "string option"

record worker =
  jobs :: "(string \<times> job) list"
  jobQueue :: "string list"
  isProcessing :: bool
  jobsCreated :: nat

text \<open>
  The configuration of the worker: the secrets of its environment, whether a cache is
  configured, the answer of the cache for a brand (\<open>None\<close> when it holds no fresh entry)
  and the job ids that \<open>generateJobId\<close> draws, by the number of jobs created so far.
\<close>

record worker_env =
  API_SECRET :: string
  META_ACCESS_TOKEN :: string
  SCRAPINGBEE_KEY :: string
  OPENAI_KEY :: string
  has_supabase :: bool
  cached_report :: "string \<Rightarrow> discovery_response option"
  job_id_supply :: "nat \<Rightarrow> string"

text \<open>
  The payloads of the responses.  The progress text and the timings of a job are left
  out; they depend on how far the job has come when the response is written.
\<close>

datatype payload =
    NoContent
  | Health nat nat bool
  | ErrorMessage string
  | CachedReport discovery_response
  | JobProcessing string
  | JobDone string discovery_response
  | JobError string "string option"
  | JobState string job_status "nat option"
  | BatchQueued nat "string list" nat

record http_response =
  status_code :: nat
  content :: payload

definition jsonResponse :: "payload \<Rightarrow> nat \<Rightarrow> http_response" where
  "jsonResponse p c = \<lparr>status_code = c, content = p\<rparr>"

definition verifyAuth :: "worker_env \<Rightarrow> http_request \<Rightarrow> bool" where
  "verifyAuth env req =
     (API_SECRET env = [] \<or> req_authorization req = Some (''Bearer '' @ API_SECRET env))"

text \<open>The options with which the worker runs the pipeline for a job.\<close>

definition emptyToNone :: "string \<Rightarrow> string option" where
  "emptyToNone s = (if s = [] then None else Some s)"

definition jobOptions :: "worker_env \<Rightarrow> brand_request \<Rightarrow> discovery_options" where
  "jobOptions env rq =
     \<lparr>country = Some (orElse (rq_country rq) ''DE''),
      countries = Some (case rq_countries rq of
                          Some cs \<Rightarrow> cs
                        | None \<Rightarrow> [orElse (rq_country rq) ''DE'']),
      opt_keywords = rq_keywords rq,
      max_keyword_ads = Some (numOr (rq_max_keyword_ads rq) 300),
      max_keywords = Some 8,
      max_brand_ads = Some 500,
      max_domains_to_check = Some 0,
      use_headless = Some True,
      use_headless_for_domains = Some True,
      access_token = META_ACCESS_TOKEN env,
      opt_scrapingbee_key = emptyToNone (SCRAPINGBEE_KEY env),
      openai_key = emptyToNone (OPENAI_KEY env),
      timeout_ms = Some 0\<rparr>"

text \<open>
  The run of the pipeline for a job.  A job of a batch may lack its brand name; the
  pipeline then still begins with the brand search and ends in the \<open>catch\<close> block, with
  the exception of the search or with the type error of the first use of the name.  The
  absent name is modelled as the empty string in the search and in the response.
\<close>

definition runPipeline ::
  "web \<Rightarrow> word_lists \<Rightarrow> string option \<Rightarrow> discovery_options \<Rightarrow> discovery_response traced"
where
  "runPipeline w wl b opts =
     (case b of
        Some brandName \<Rightarrow> discoverBrand w wl brandName opts
      | None \<Rightarrow>
          (makeErrorResponse []
             (case fetch_all_ads w (brandSearch [] opts) of
                Inl e \<Rightarrow> e
              | Inr ads \<Rightarrow> ''TypeError: brandName is undefined''),
           [SearchAds (brandSearch [] opts)]))"

text \<open>
  \<open>processNextJob\<close>.  The source starts it without waiting for it; the model lets a
  started job, and the jobs queued behind it, run to the end, and collects their
  outbound calls in the order in which they are issued.  The first call of the first job
  is issued before \<open>processNextJob\<close> gives the control back to the handler.  A report with
  \<open>success\<close> is stored in the cache, which is one more outbound call.  The timer that
  removes old finished jobs is not part of the model.
\<close>

definition runJob :: "worker_env \<Rightarrow> web \<Rightarrow> word_lists \<Rightarrow> job \<Rightarrow> job traced" where
  "runJob env w wl j =
     (let r = runPipeline w wl (job_brand j) (jobOptions env (job_request j)) in
      (j\<lparr>job_status := JobCompleted, job_result := Some (fst r)\<rparr>,
       snd r @ (case job_brand j of
                  Some b \<Rightarrow>
                    if has_supabase env \<and> success (fst r)
                    then [CacheStore (trim (toLowerCase b))] else []
                | None \<Rightarrow> [])))"

function processQueue ::
  "worker_env \<Rightarrow> web \<Rightarrow> word_lists \<Rightarrow> worker traced \<Rightarrow> worker traced"
where
  "processQueue env w wl st =
     (case jobQueue (fst st) of
        [] \<Rightarrow> st
      | jobId # rest \<Rightarrow>
          (case map_of (jobs (fst st)) jobId of
             None \<Rightarrow> ((fst st)\<lparr>jobQueue := rest\<rparr>, snd st)
           | Some j \<Rightarrow>
               (let r = runJob env w wl j in
                processQueue env w wl
                  ((fst st)\<lparr>jobQueue := rest, jobs := mapSet jobId (fst r) (jobs (fst st))\<rparr>,
                   snd st @ snd r))))"
  by pat_completeness auto
termination
  by (relation "measure (\<lambda>(env, w, wl, st). length (jobQueue (fst st)))") auto

declare processQueue.simps [simp del]

definition processNextJob ::
  "worker_env \<Rightarrow> web \<Rightarrow> word_lists \<Rightarrow> worker traced \<Rightarrow> worker traced"
where
  "processNextJob env w wl st =
     (if isProcessing (fst st) then st else processQueue env w wl st)"

definition newJob :: "worker_env \<Rightarrow> worker \<Rightarrow> brand_request \<Rightarrow> job" where
  "newJob env st rq =
     \<lparr>job_id = job_id_supply env (jobsCreated st), job_brand = rq_brand rq,
      job_request = rq, job_status = Queued, job_result = None, job_error = None\<rparr>"

definition enqueue :: "worker_env \<Rightarrow> brand_request \<Rightarrow> worker \<Rightarrow> worker" where
  "enqueue env rq st =
     (let j = newJob env st rq in
      st\<lparr>jobs := mapSet (job_id j) j (jobs st),
         jobQueue := jobQueue st @ [job_id j],
         jobsCreated := jobsCreated st + 1\<rparr>)"

text \<open>\<open>POST /api/discover\<close>, after the authorisation.\<close>

text \<open>
  The loop over the jobs that looks for a job of the same brand which is queued or
  running.  A job without a brand name makes the comparison throw (\<open>Inl\<close>); the server
  answers such a request with its own error response.
\<close>

fun activeJobFor :: "job list \<Rightarrow> string \<Rightarrow> unit + job option" where
  "activeJobFor [] b = Inr None"
| "activeJobFor (j # js) b =
     (case job_brand j of
        None \<Rightarrow> Inl ()
      | Some jb \<Rightarrow>
          if toLowerCase jb = toLowerCase b \<and> (job_status j = Queued \<or> job_status j = Running)
          then Inr (Some j)
          else activeJobFor js b)"

definition handleDiscover ::
  "worker_env \<Rightarrow> web \<Rightarrow> word_lists \<Rightarrow> worker \<Rightarrow> brand_request \<Rightarrow>
   (http_response \<times> worker) traced"
where
  "handleDiscover env w wl st rq =
     (case rq_brand rq of
        None \<Rightarrow> ((jsonResponse (ErrorMessage ''brand is required'') 400, st), [])
      | Some b \<Rightarrow>
          if b = [] then ((jsonResponse (ErrorMessage ''brand is required'') 400, st), [])
          else if META_ACCESS_TOKEN env = []
          then ((jsonResponse (ErrorMessage ''META_ACCESS_TOKEN not configured'') 500, st), [])
          else
            (let useCache = (has_supabase env \<and> rq_force_refresh rq \<noteq> Some True);
                 tr = (if useCache then [CacheLookup (trim (toLowerCase b))] else [])
             in case (if useCache then cached_report env (trim (toLowerCase b)) else None) of
                  Some data \<Rightarrow> ((jsonResponse (CachedReport (data\<lparr>rstatus := Cached\<rparr>)) 200, st), tr)
                | None \<Rightarrow>
                    (case activeJobFor (map snd (jobs st)) b of
                       Inl u \<Rightarrow>
                         ((jsonResponse (ErrorMessage ''Internal Server Error'') 500, st), tr)
                     | Inr (Some j) \<Rightarrow> ((jsonResponse (JobProcessing (job_id j)) 200, st), tr)
                     | Inr None \<Rightarrow>
                         (let st1 = enqueue env rq st;
                              jobId = job_id_supply env (jobsCreated st);
                              fin = processNextJob env w wl (st1, tr)
                          in ((jsonResponse (JobProcessing jobId) 202, fst fin), snd fin)))))"

text \<open>
  \<open>POST /api/batch\<close>: every entry of \<open>brands\<close> becomes a job.  The queue length of the
  response is read after \<open>processNextJob\<close> has taken the first job from the queue.
\<close>

definition handleBatch ::
  "worker_env \<Rightarrow> web \<Rightarrow> word_lists \<Rightarrow> worker \<Rightarrow> brand_request list option \<Rightarrow>
   (http_response \<times> worker) traced"
where
  "handleBatch env w wl st brands =
     (case brands of
        None \<Rightarrow> ((jsonResponse (ErrorMessage ''brands array is required'') 400, st), [])
      | Some [] \<Rightarrow> ((jsonResponse (ErrorMessage ''brands array is required'') 400, st), [])
      | Some (b # bs) \<Rightarrow>
          (let st1 = fold (enqueue env) (b # bs) st;
               jobIds = map (\<lambda>i. job_id_supply env (jobsCreated st + i)) [0..<length (b # bs)];
               queued = length (jobQueue st1) - (if isProcessing st then 0 else 1);
               fin = processNextJob env w wl (st1, [])
           in ((jsonResponse (BatchQueued (length jobIds) jobIds queued) 202, fst fin),
               snd fin)))"

text \<open>\<open>GET /api/status/:id\<close>\<close>

definition handleStatus :: "worker \<Rightarrow> string \<Rightarrow> http_response" where
  "handleStatus st p =
     (let jobId = beforeFirst ''/api/status/'' (drop 12 p) in
      case map_of (jobs st) jobId of
        None \<Rightarrow> jsonResponse (ErrorMessage ''Job not found'') 404
      | Some j \<Rightarrow>
          if job_status j = JobCompleted \<and> job_result j \<noteq> None
          then jsonResponse (JobDone jobId (the (job_result j))) 200
          else if job_status j = JobFailed
          then jsonResponse (JobError jobId (job_error j)) 200
          else jsonResponse
                 (JobState jobId (job_status j)
                    (if job_status j = Queued
                     then Some (if jobId \<in> set (jobQueue st)
                                then length (takeWhile (\<lambda>x. x \<noteq> jobId) (jobQueue st)) + 1
                                else 0)
                     else None)) 200)"

definition handleRequest ::
  "worker_env \<Rightarrow> web \<Rightarrow> word_lists \<Rightarrow> worker \<Rightarrow> http_request \<Rightarrow>
   (http_response \<times> worker) traced"
where
  "handleRequest env w wl st req =
     (if req_method req = OPTIONS then ((jsonResponse NoContent 200, st), [])
      else if req_path req = ''/api/health''
      then ((jsonResponse (Health (length (jobs st)) (length (jobQueue st)) (isProcessing st))
               200, st), [])
      else if \<not> verifyAuth env req
      then ((jsonResponse (ErrorMessage ''Unauthorized'') 401, st), [])
      else if req_path req = ''/api/discover'' \<and> req_method req = POST
      then handleDiscover env w wl st (req_body req)
      else if startsWith (req_path req) ''/api/status/'' \<and> req_method req = GET
      then ((handleStatus st (req_path req), st), [])
      else if req_path req = ''/api/batch'' \<and> req_method req = POST
      then handleBatch env w wl st (req_brands req)
      else ((jsonResponse (ErrorMessage ''Not found'') 404, st), []))"

section \<open>Auxiliary notions for the proofs\<close>




definition notDirect :: "domain_brand_check option traced \<Rightarrow> bool" where
  "notDirect x = (case fst x of None \<Rightarrow> True | Some r \<Rightarrow> match_kind r \<noteq> Direct)"

text \<open>
  For the keyword generator: \<open>textWords\<close> are the words that \<open>extractAndScoreWords\<close>
  scores for one text, \<open>wordInv W m\<close> says that the score map \<open>m\<close> counts the words of
  \<open>W\<close>, and \<open>wordOk\<close> collects the tests a scored word has passed.
\<close>

definition wordInv :: "string list \<Rightarrow> (string \<times> word_score) list \<Rightarrow> bool" where
  "wordInv W m =
     (distinct (map fst m)
      \<and> (\<forall>k. (k \<in> set W \<longleftrightarrow> map_of m k \<noteq> None)
             \<and> (\<forall>e. map_of m k = Some e \<longrightarrow> frequency e = count_list W k)))"

definition textWords :: "word_lists \<Rightarrow> string \<Rightarrow> string \<Rightarrow> string \<Rightarrow> string list" where
  "textWords wl bl bn txt = (if txt = [] then [] else scoredWords wl bl bn txt)"

definition wordOk :: "word_lists \<Rightarrow> string \<Rightarrow> string \<Rightarrow> string \<Rightarrow> bool" where
  "wordOk wl bl bn k =
     (4 \<le> length k \<and> \<not> allDigits k \<and> \<not> startsWithDigit k \<and> \<not> isStopWord wl k
      \<and> \<not> isGenericAdWord wl k \<and> \<not> isBrandWord k bl bn)"

section \<open>Example data\<close>

definition exBrand :: brand_info where
  "exBrand = \<lparr>brand_name = ''Glow25'', brand_domain = Some ''glow25.de'',
     brand_aliases = [''glow25''], shopify_store = None, vendor_name = Some ''Glow25'',
     brand_platform = Some Shopify, official_page_ids = [''100''], brand_payers = None\<rparr>"




text \<open>
  A small web: \<open>shop.example\<close> is a Shopify store whose products list the vendor
  \<open>Glow25 GmbH\<close>, and its home page also names the brand's domain.
\<close>

definition exParse :: url_parser where
  "exParse u =
     (if u = ''https://shop.example'' \<or> u = ''https://shop.example/''
      then Some \<lparr>hostname = ''shop.example'', pathname = ''/'', search = []\<rparr>
      else if u = ''https://glow25.de'' \<or> u = ''https://glow25.de/''
      then Some \<lparr>hostname = ''glow25.de'', pathname = ''/'', search = []\<rparr>
      else None)"

definition exWeb :: web where
  "exWeb =
     \<lparr>fetch_all_ads = (\<lambda>q. Inr []),
      detect_shopify = (\<lambda>d. Inl ''offline''),
      refine_keywords = (\<lambda>ks b pn n. Inr None),
      scrape_with_headless = (\<lambda>u. Inl ''offline''),
      extract_landing_page_url = (\<lambda>u. Inr None),
      fetch_page = (\<lambda>u.
        if u = ''https://shop.example''
        then Some \<lparr>ok = True, resp_url = ''https://shop.example/'',
                   resp_text = ''<script src=//cdn.shopify.com/s.js></script> glow25.de''\<rparr>
        else None),
      products_json = (\<lambda>d. if d = ''shop.example'' then Some [''Glow25 GmbH''] else None),
      presell_chain = (\<lambda>u. \<lparr>pr_final_url = None, pr_chain = [u]\<rparr>),
      fetch_landing = (\<lambda>u. None),
      render_page = (\<lambda>u. None),
      parse_url = exParse,
      clock = (\<lambda>k. 1000 * int k)\<rparr>"

definition exOpts :: check_options where
  "exOpts = \<lparr>scrapingbee_key = None, domainAds = None, optFullUrls = None\<rparr>"

definition exAd :: "string \<Rightarrow> string \<Rightarrow> string list \<Rightarrow> meta_ad" where
  "exAd i p captions =
     \<lparr>ad_id = i, ad_creative_bodies = [], ad_creative_link_titles = [],
      ad_creative_link_descriptions = [], ad_creative_link_captions = captions,
      ad_snapshot_url = None, page_id = Some p, page_name = Some ''Page'',
      beneficiary_payers = []\<rparr>"





text \<open>Ads of the brand for the keyword generator, with a few entries of the word lists.\<close>

definition exWords :: word_lists where
  "exWords = \<lparr>germanStopWords = [''jetzt'', ''nicht''], englishStopWords = [''best''],
               genericAdWords = [''kaufen'', ''shop'']\<rparr>"

definition exTextAd :: "string \<Rightarrow> string list \<Rightarrow> meta_ad" where
  "exTextAd i bodies =
     \<lparr>ad_id = i, ad_creative_bodies = bodies, ad_creative_link_titles = [],
      ad_creative_link_descriptions = [], ad_creative_link_captions = [''glow25.de''],
      ad_snapshot_url = None, page_id = Some ''100'', page_name = Some ''Glow25'',
      beneficiary_payers = []\<rparr>"

definition exBrandAds :: "meta_ad list" where
  "exBrandAds =
     [exTextAd ''1'' [''Collagen Pulver von Glow25!''],
      exTextAd ''2'' [''Bestes collagen Pulver 2024''],
      exTextAd ''3'' [''COLLAGEN jetzt kaufen'']]"

text \<open>
  A run of the pipeline: the brand search finds two ads of the brand's own page and two
  ads of other pages, which name the domains \<open>shop.example\<close> and \<open>blog.example\<close>.
\<close>

definition runAds :: "meta_ad list" where
  "runAds = [exTextAd ''1'' [], exTextAd ''2'' [],
             exAd ''3'' ''200'' [''shop.example''],
             exAd ''4'' ''300'' [''blog.example/glow'']]"

definition runWeb :: web where
  "runWeb = exWeb\<lparr>fetch_all_ads :=
     (\<lambda>q. if search_terms q = ''Glow25'' then Inr runAds else Inr [])\<rparr>"

definition runOpts :: discovery_options where
  "runOpts = \<lparr>country = None, countries = None, opt_keywords = None, max_keyword_ads = None,
     max_keywords = None, max_brand_ads = None, max_domains_to_check = None,
     use_headless = None, use_headless_for_domains = None, access_token = ''token'',
     opt_scrapingbee_key = None, openai_key = None, timeout_ms = None\<rparr>"

text \<open>A worker with a secret, a token and a cache, and requests to it.\<close>

definition exEnv :: worker_env where
  "exEnv = \<lparr>API_SECRET = ''secret'', META_ACCESS_TOKEN = ''token'', SCRAPINGBEE_KEY = [],
     OPENAI_KEY = [], has_supabase = True, cached_report = (\<lambda>b. None),
     job_id_supply = (\<lambda>n. ''job_'' @ [char_of (48 + n)])\<rparr>"

definition idleWorker :: worker where
  "idleWorker = \<lparr>jobs = [], jobQueue = [], isProcessing = False, jobsCreated = 0\<rparr>"

definition exRequest :: "string option \<Rightarrow> brand_request" where
  "exRequest b = \<lparr>rq_brand = b, rq_country = None, rq_countries = None, rq_keywords = None,
     rq_max_keyword_ads = None, rq_force_refresh = None\<rparr>"

definition discoverRequest :: "string option \<Rightarrow> http_request" where
  "discoverRequest b = \<lparr>req_method = POST, req_path = ''/api/discover'',
     req_authorization = Some ''Bearer secret'', req_body = exRequest b, req_brands = None\<rparr>"

definition batchRequest :: "string option list \<Rightarrow> http_request" where
  "batchRequest bs = \<lparr>req_method = POST, req_path = ''/api/batch'',
     req_authorization = Some ''Bearer secret'', req_body = exRequest None,
     req_brands = Some (map exRequest bs)\<rparr>"

section \<open>Properties\<close>

lemma trackLoop_unfold:
  "trackLoop n ch u k =
     (if k < MAX_REDIRECTS then
        (case nextHop n u of
           None \<Rightarrow> (ch, u, k)
         | Some v \<Rightarrow> trackLoop n (ch @ [v]) v (k + 1))
      else (ch, u, k))"
  by (rule trackLoop.simps)

lemma hops_bounded_aux:
  "k \<le> MAX_REDIRECTS \<Longrightarrow> snd (snd (trackLoop n ch u k)) \<le> MAX_REDIRECTS"
proof (induction n ch u k rule: trackLoop.induct)
  case (1 n ch currentUrl redirectCount)
  show ?case
  proof (cases "redirectCount < MAX_REDIRECTS")
    case False
    with "1.prems" show ?thesis by (subst trackLoop.simps) simp
  next
    case True
    show ?thesis
    proof (cases "nextHop n currentUrl")
      case None
      with True "1.prems" show ?thesis by (subst trackLoop.simps) simp
    next
      case (Some v)
      from True have "redirectCount + 1 \<le> MAX_REDIRECTS" by simp
      with "1.IH" [OF True Some] have
        "snd (snd (trackLoop n (ch @ [v]) v (redirectCount + 1))) \<le> MAX_REDIRECTS" .
      with True Some show ?thesis by (subst trackLoop.simps) simp
    qed
  qed
qed

text \<open>
  C3.  On the cycle \<open>a \<rightarrow> b \<rightarrow> a\<close> the tracker has no guard against a URL it has already
  visited: it follows the cycle until the hop counter reaches \<open>MAX_REDIRECTS\<close>, takes
  ten hops and returns a chain of eleven URLs, not \<open>[a, b]\<close> within three hops.
\<close>

theorem trackRedirectChain_cycle_runs_to_limit:
  "chain (trackRedirectChain (cycleNet ''https://a.example/'' ''https://b.example/'')
            ''https://a.example/'') =
     [''https://a.example/'', ''https://b.example/'', ''https://a.example/'',
      ''https://b.example/'', ''https://a.example/'', ''https://b.example/'',
      ''https://a.example/'', ''https://b.example/'', ''https://a.example/'',
      ''https://b.example/'', ''https://a.example/'']
   \<and> hopsTaken (cycleNet ''https://a.example/'' ''https://b.example/'')
         ''https://a.example/'' = 10"
  by code_simp

lemma map_of_mapSet: "map_of (mapSet k v m) = (map_of m)(k \<mapsto> v)"
  by (induction m) (auto simp: fun_eq_iff)

lemma keys_mapSet: "fst ` set (mapSet k v m) = insert k (fst ` set m)"
  by (induction m) auto

lemma distinct_mapSet: "distinct (map fst m) \<Longrightarrow> distinct (map fst (mapSet k v m))"
proof (induction m)
  case Nil
  then show ?case by simp
next
  case (Cons p ps)
  have "fst ` set (mapSet k v ps) = insert k (fst ` set ps)" by (rule keys_mapSet)
  with Cons show ?case by auto
qed














text \<open>
  C4.  A candidate domain that equals the brand's resolved domain up to case is reported
  as a direct match with confidence 1.0, and the check makes no outbound call: no later
  step of the cascade is run, whatever it would have found.
\<close>

theorem direct_check_short_circuits:
  assumes "brand_domain bi = Some bd" and "bd \<noteq> []" and "toLowerCase d = toLowerCase bd"
  shows "checkDomainForBrand w d bi opts = (matched (noResult d) Direct 1.0 (Some d), [])
    \<and> is_match (fst (checkDomainForBrand w d bi opts))
    \<and> match_kind (fst (checkDomainForBrand w d bi opts)) = Direct
    \<and> confidence (fst (checkDomainForBrand w d bi opts)) = 1.0
    \<and> snd (checkDomainForBrand w d bi opts) = []"
  using assms by (simp add: checkDomainForBrand_def matched_def)



lemma vendorLoop_found_cases:
  "found (vendorLoop b vs) \<or> vendorLoop b vs = vendorMiss"
  by (induction vs) (auto simp: Let_def vendorHit_def)



lemma orNext_Some: "fst x = Some r \<Longrightarrow> orNext x y = x"
  by (simp add: orNext_def)

lemma orNext_None: "fst x = None \<Longrightarrow> orNext x y = (fst y, snd x @ snd y)"
  by (simp add: orNext_def)


theorem direct_check_short_circuits_witness:
  "brand_domain exBrand = Some ''glow25.de''
   \<and> toLowerCase ''GLOW25.de'' = toLowerCase ''glow25.de''
   \<and> match_kind (fst (checkDomainForBrand exWeb ''GLOW25.de'' exBrand exOpts)) = Direct
   \<and> confidence (fst (checkDomainForBrand exWeb ''GLOW25.de'' exBrand exOpts)) = 1.0
   \<and> snd (checkDomainForBrand exWeb ''GLOW25.de'' exBrand exOpts) = []"
proof -
  have h1: "brand_domain exBrand = Some ''glow25.de''" by (simp add: exBrand_def)
  have h2: "''glow25.de'' \<noteq> []" by simp
  have h3: "toLowerCase ''GLOW25.de'' = toLowerCase ''glow25.de''" by code_simp
  from direct_check_short_circuits [OF h1 h2 h3, of exWeb exOpts] h1 h3
  show ?thesis by blast
qed


lemma code_char_of: "n < 256 \<Longrightarrow> code (char_of n) = n"
  by (simp add: code_def)

lemma code_less: "code c < 256"
  by (simp add: code_def)

lemma lowerChar_idem: "lowerChar (lowerChar c) = lowerChar c"
proof (cases "isUpperAZ c \<or> (192 \<le> code c \<and> code c \<le> 222 \<and> code c \<noteq> 215)")
  case False
  then have "lowerChar c = c" by (auto simp: lowerChar_def)
  then show ?thesis by simp
next
  case True
  then have b: "code c + 32 < 256" by (auto simp: isUpperAZ_def)
  have l: "lowerChar c = char_of (code c + 32)" using True by (simp add: lowerChar_def)
  have "code (lowerChar c) = code c + 32" unfolding l using b by (rule code_char_of)
  with True have "\<not> (isUpperAZ (lowerChar c) \<or> (192 \<le> code (lowerChar c) \<and> code (lowerChar c) \<le> 222 \<and> code (lowerChar c) \<noteq> 215))"
    by (auto simp: isUpperAZ_def)
  then show ?thesis by (auto simp: lowerChar_def [of "lowerChar c"])
qed



lemma startsWith_set: "startsWith s p \<Longrightarrow> set p \<subseteq> set s"
  unfolding startsWith_def by (metis set_take_subset)

lemma includesStr_set: "includesStr s t \<Longrightarrow> set t \<subseteq> set s"
proof (induction s)
  case Nil
  then show ?case by simp
next
  case (Cons c cs)
  from Cons.prems have "startsWith (c # cs) t \<or> includesStr cs t" by simp
  then show ?case
  proof
    assume "startsWith (c # cs) t"
    then show ?thesis by (rule startsWith_set)
  next
    assume "includesStr cs t"
    with Cons.IH have "set t \<subseteq> set cs" by simp
    then show ?thesis by auto
  qed
qed


lemma toLowerCase_idem: "toLowerCase (toLowerCase s) = toLowerCase s"
  by (simp add: toLowerCase_def lowerChar_idem)










lemma notDirect_None [simp]: "notDirect (None, tr)"
  by (simp add: notDirect_def)





















lemma wordInv_step:
  assumes "wordInv W m"
  shows "wordInv (W @ [w]) (scoreWord src w m)"
proof (cases "map_of m w")
  case None
  with assms have "w \<notin> set W" unfolding wordInv_def by blast
  then have "count_list W w = 0" by (simp add: count_list_0_iff)
  with assms None show ?thesis
    unfolding wordInv_def scoreWord_def by (simp add: map_of_mapSet distinct_mapSet)
next
  case (Some e)
  with assms have "frequency e = count_list W w" unfolding wordInv_def by blast
  with assms Some show ?thesis
    unfolding wordInv_def scoreWord_def by (simp add: map_of_mapSet distinct_mapSet)
qed

lemma wordInv_fold: "wordInv W m \<Longrightarrow> wordInv (W @ ws) (fold (scoreWord src) ws m)"
proof (induction ws arbitrary: W m)
  case Nil
  then show ?case by simp
next
  case (Cons w ws)
  from Cons.prems have "wordInv (W @ [w]) (scoreWord src w m)" by (rule wordInv_step)
  from Cons.IH [OF this] show ?case by simp
qed

lemma wordInv_text:
  "wordInv W m \<Longrightarrow> wordInv (W @ textWords wl bl bn txt) (extractAndScoreWords wl bl bn src txt m)"
  by (simp add: textWords_def extractAndScoreWords_def wordInv_fold)

lemma wordInv_texts:
  "wordInv W m \<Longrightarrow>
   wordInv (W @ concat (map (textWords wl bl bn) txts))
     (fold (extractAndScoreWords wl bl bn src) txts m)"
proof (induction txts arbitrary: W m)
  case Nil
  then show ?case by simp
next
  case (Cons t ts)
  from Cons.prems have "wordInv (W @ textWords wl bl bn t) (extractAndScoreWords wl bl bn src t m)"
    by (rule wordInv_text)
  from Cons.IH [OF this] show ?case by simp
qed

lemma wordInv_ad:
  "wordInv W m \<Longrightarrow>
   wordInv (W @ concat (map (textWords wl bl bn) (adTexts ad))) (scoreAd wl bl bn ad m)"
proof -
  assume a: "wordInv W m"
  note b = wordInv_texts [OF a, of wl bl bn "ad_creative_bodies ad" Body]
  note t = wordInv_texts [OF b, of wl bl bn "ad_creative_link_titles ad" Title]
  note d = wordInv_texts [OF t, of wl bl bn "ad_creative_link_descriptions ad" Description]
  from d show ?thesis by (simp add: scoreAd_def adTexts_def)
qed

lemma wordInv_ads:
  "wordInv W m \<Longrightarrow>
   wordInv (W @ concat (map (textWords wl bl bn) (concat (map adTexts ads))))
     (fold (scoreAd wl bl bn) ads m)"
proof (induction ads arbitrary: W m)
  case Nil
  then show ?case by simp
next
  case (Cons a as)
  from Cons.prems have "wordInv (W @ concat (map (textWords wl bl bn) (adTexts a))) (scoreAd wl bl bn a m)"
    by (rule wordInv_ad)
  from Cons.IH [OF this] show ?case by simp
qed

lemma wordInv_all:
  "wordInv (concat (map (textWords wl bl bn) (concat (map adTexts ads))))
     (fold (scoreAd wl bl bn) ads [])"
proof -
  have "wordInv [] []" by (simp add: wordInv_def)
  from wordInv_ads [OF this] show ?thesis by simp
qed


lemma splitWs_done:
  "dropWhile (\<lambda>c. \<not> isSpace c) s = [] \<Longrightarrow> splitWs s = [takeWhile (\<lambda>c. \<not> isSpace c) s]"
  by (subst splitWs.simps) (auto simp: Let_def)

lemma splitWs_more:
  "dropWhile (\<lambda>c. \<not> isSpace c) s \<noteq> [] \<Longrightarrow>
   splitWs s = takeWhile (\<lambda>c. \<not> isSpace c) s
     # splitWs (dropWhile isSpace (dropWhile (\<lambda>c. \<not> isSpace c) s))"
  by (subst splitWs.simps) (auto simp: Let_def)

lemma splitWs_no_space: "t \<in> set (splitWs s) \<Longrightarrow> c \<in> set t \<Longrightarrow> \<not> isSpace c"
proof (induction s arbitrary: t rule: splitWs.induct)
  case (1 s)
  let ?tok = "takeWhile (\<lambda>c. \<not> isSpace c) s"
  let ?rest = "dropWhile (\<lambda>c. \<not> isSpace c) s"
  have tok: "c \<in> set ?tok \<Longrightarrow> \<not> isSpace c" by (auto dest: set_takeWhileD)
  show ?case
  proof (cases "?rest = []")
    case True
    from splitWs_done [OF True] "1.prems" tok show ?thesis by simp
  next
    case False
    from splitWs_more [OF False] "1.prems"(1)
    have "t = ?tok \<or> t \<in> set (splitWs (dropWhile isSpace ?rest))" by simp
    then show ?thesis
    proof
      assume "t = ?tok"
      with "1.prems"(2) tok show ?thesis by simp
    next
      assume "t \<in> set (splitWs (dropWhile isSpace ?rest))"
      from "1.IH" [OF refl refl False this "1.prems"(2)] show ?thesis .
    qed
  qed
qed

lemma isSpace_lowerChar: "isSpace (lowerChar c) = isSpace c"
proof (cases "isUpperAZ c \<or> (192 \<le> code c \<and> code c \<le> 222 \<and> code c \<noteq> 215)")
  case False
  then have "lowerChar c = c" by (auto simp: lowerChar_def)
  then show ?thesis by simp
next
  case True
  then have b: "code c + 32 < 256" by (auto simp: isUpperAZ_def)
  have l: "lowerChar c = char_of (code c + 32)" using True by (simp add: lowerChar_def)
  have "code (lowerChar c) = code c + 32" unfolding l using b by (rule code_char_of)
  with True show ?thesis by (auto simp: isSpace_def isUpperAZ_def)
qed

lemma trim_no_space: "\<forall>c \<in> set s. \<not> isSpace c \<Longrightarrow> trim s = s"
proof -
  assume a: "\<forall>c \<in> set s. \<not> isSpace c"
  then have "dropWhile isSpace s = s" by (cases s) auto
  moreover from a have "dropWhile isSpace (rev s) = rev s" by (cases "rev s") (auto simp: in_set_conv_decomp)
  ultimately show ?thesis by (simp add: trim_def)
qed

lemma token_lower:
  assumes "t \<in> set (splitWs s)"
  shows "trim (toLowerCase t) = toLowerCase t"
proof (rule trim_no_space)
  show "\<forall>c \<in> set (toLowerCase t). \<not> isSpace c"
    using splitWs_no_space [OF assms] by (auto simp: toLowerCase_def isSpace_lowerChar)
qed

lemma count_filter: "count_list (filter P xs) k = (if P k then count_list xs k else 0)"
  by (induction xs) auto

lemma count_concat: "count_list (concat xss) k = sum_list (map (\<lambda>xs. count_list xs k) xss)"
  by (induction xss) auto

lemma count_map_filter:
  assumes "\<And>w. w \<in> set ws \<Longrightarrow> f w = g w" and "\<And>w. w \<in> set ws \<Longrightarrow> (P w \<longleftrightarrow> Q (g w))"
    and "Q k"
  shows "count_list (map f (filter P ws)) k = count_list (map g ws) k"
  using assms by (induction ws) auto

lemma textWords_ok:
  assumes "k \<in> set (textWords wl bl bn txt)"
  shows "wordOk wl bl bn k \<and> toLowerCase k = k"
proof -
  from assms have k: "k \<in> set (scoredWords wl bl bn txt)"
    by (simp add: textWords_def split: if_splits)
  then obtain w where w: "w \<in> set (splitWs (replacePunct txt))" "4 \<le> length w"
      "k = trim (toLowerCase w)"
    by (auto simp: scoredWords_def baseWords_def)
  from w(1) have kl: "k = toLowerCase w" unfolding w(3) by (rule token_lower)
  then have "length k = length w" by (simp add: toLowerCase_def)
  with w(2) have "4 \<le> length k" by simp
  moreover from kl have "toLowerCase k = k" by (simp add: toLowerCase_idem)
  ultimately show ?thesis using k by (auto simp: wordOk_def scoredWords_def baseWords_def)
qed

lemma textWords_count:
  assumes "wordOk wl bl bn k"
  shows "count_list (textWords wl bl bn txt) k = count_list (textTokens txt) k"
proof (cases "txt = []")
  case True
  from assms have "k \<noteq> []" by (auto simp: wordOk_def)
  moreover have "splitWs [] = [[]]" by (rule splitWs_done [of "[]", simplified])
  ultimately have "count_list (textTokens []) k = 0"
    by (simp add: textTokens_def replacePunct_def toLowerCase_def)
  with True show ?thesis by (simp add: textWords_def)
next
  case False
  let ?ws = "splitWs (replacePunct txt)"
  have "count_list (map (\<lambda>w. trim (toLowerCase w)) (filter (\<lambda>w. 4 \<le> length w) ?ws)) k
      = count_list (map toLowerCase ?ws) k"
  proof (rule count_map_filter [where Q = "\<lambda>x. 4 \<le> length x"])
    fix w assume "w \<in> set ?ws"
    then show "trim (toLowerCase w) = toLowerCase w" by (rule token_lower)
  next
    fix w show "(4 \<le> length w) = (4 \<le> length (toLowerCase w))" by (simp add: toLowerCase_def)
  next
    from assms show "4 \<le> length k" by (simp add: wordOk_def)
  qed
  with assms False show ?thesis
    by (simp add: textWords_def scoredWords_def baseWords_def count_filter wordOk_def textTokens_def)
qed

lemma allWords_count:
  assumes "wordOk wl bl bn k"
  shows "count_list (concat (map (textWords wl bl bn) txts)) k
       = count_list (concat (map textTokens txts)) k"
  by (induction txts) (simp_all add: textWords_count [OF assms])

lemma score_entry:
  assumes "(k, e) \<in> set (fold (scoreAd wl bl bn) ads [])"
  shows "wordOk wl bl bn k \<and> toLowerCase k = k \<and> frequency e = occurrences ads k"
proof -
  let ?W = "concat (map (textWords wl bl bn) (concat (map adTexts ads)))"
  let ?m = "fold (scoreAd wl bl bn) ads []"
  have inv: "wordInv ?W ?m" by (rule wordInv_all)
  from inv have "distinct (map fst ?m)" by (simp add: wordInv_def)
  with assms have e: "map_of ?m k = Some e" by simp
  with inv have kW: "k \<in> set ?W" and fr: "frequency e = count_list ?W k"
    unfolding wordInv_def by (metis option.distinct(1))+
  from kW obtain t0 where "k \<in> set (textWords wl bl bn t0)" by auto
  then have ok: "wordOk wl bl bn k \<and> toLowerCase k = k" by (rule textWords_ok)
  then have "count_list ?W k = occurrences ads k"
    by (simp add: allWords_count occurrences_def)
  with fr ok show ?thesis by simp
qed


lemma single_entry:
  assumes "ks \<in> set (singleKeywords wl ads brandName maxKeywords)"
  shows "\<exists>e. (ks_keyword ks, e)
            \<in> set (fold (scoreAd wl (toLowerCase brandName)
                           (stripSeparators (toLowerCase brandName))) ads [])
          \<and> minFrequency (length ads) \<le> frequency e"
proof -
  let ?m = "fold (scoreAd wl (toLowerCase brandName) (stripSeparators (toLowerCase brandName))) ads []"
  let ?sorted = "take maxKeywords (sort_key (\<lambda>e. - int (frequency (snd e)))
      (filter (\<lambda>e. minFrequency (length ads) \<le> frequency (snd e)) ?m))"
  from assms obtain x where x: "x \<in> set ?sorted" "ks_keyword ks = fst x"
    by (auto simp: singleKeywords_def Let_def)
  from x(1) have "x \<in> set (sort_key (\<lambda>e. - int (frequency (snd e)))
      (filter (\<lambda>e. minFrequency (length ads) \<le> frequency (snd e)) ?m))"
    by (rule in_set_takeD)
  then have "x \<in> set ?m \<and> minFrequency (length ads) \<le> frequency (snd x)" by simp
  with x(2) show ?thesis by (cases x) auto
qed

lemma addSingle_keys:
  "k \<in> set (fst (fold (addSingle n) singles acc)) \<Longrightarrow>
   k \<in> set (fst acc) \<or> k \<in> ks_keyword ` set singles"
proof (induction singles arbitrary: acc)
  case Nil
  then show ?case by simp
next
  case (Cons x xs)
  from Cons.prems have "k \<in> set (fst (fold (addSingle n) xs (addSingle n x acc)))" by simp
  from Cons.IH [OF this] show ?case by (auto simp: addSingle_def split: if_splits)
qed

lemma addCompound_keys:
  "k \<in> set (fst (fold (addCompound n) cks acc)) \<Longrightarrow>
   k \<in> set (fst acc) \<or> k \<in> ks_keyword ` set cks"
proof (induction cks arbitrary: acc)
  case Nil
  then show ?case by simp
next
  case (Cons x xs)
  from Cons.prems have "k \<in> set (fst (fold (addCompound n) xs (addCompound n x acc)))" by simp
  from Cons.IH [OF this] show ?case by (auto simp: addCompound_def Let_def split: if_splits)
qed

lemma bump_keys: "fst ` set (fold bump xs m) = fst ` set m \<union> set xs"
  by (induction xs arbitrary: m) (auto simp: bump_def keys_mapSet)

lemma bigrams_blank: "b \<in> set (bigrams wl ws) \<Longrightarrow> CHR '' '' \<in> set b"
  by (induction wl ws rule: bigrams.induct) (auto split: if_splits)

lemma compound_blank:
  assumes "ck \<in> set (generateCompoundKeywords wl ads bl bn)"
  shows "CHR '' '' \<in> set (ks_keyword ck)"
proof -
  let ?bs = "concat (map (\<lambda>txt. bigrams wl (compoundWords wl bl bn txt))
                         (concat (map adCompoundTexts ads)))"
  from assms obtain e where e: "e \<in> set (take 10 (sortByCountDesc (filter (\<lambda>e. 3 \<le> snd e) (fold bump ?bs []))))"
      "ks_keyword ck = fst e"
    by (auto simp: generateCompoundKeywords_def Let_def)
  from e(1) have "e \<in> set (sortByCountDesc (filter (\<lambda>e. 3 \<le> snd e) (fold bump ?bs [])))"
    by (rule in_set_takeD)
  then have "e \<in> set (fold bump ?bs [])" by (simp add: sortByCountDesc_def)
  then have "fst e \<in> fst ` set (fold bump ?bs [])" by simp
  then have "fst e \<in> set ?bs" by (simp add: bump_keys)
  then show ?thesis unfolding e(2) by (auto dest: bigrams_blank)
qed

lemma startsWith_map: "startsWith s t \<Longrightarrow> startsWith (map f s) (map f t)"
  unfolding startsWith_def by (metis length_map take_map)

lemma includesStr_map: "includesStr s t \<Longrightarrow> includesStr (map f s) (map f t)"
proof (induction s)
  case Nil
  then show ?case by simp
next
  case (Cons c cs)
  from Cons.prems have "startsWith (c # cs) t \<or> includesStr cs t" by simp
  then show ?case
  proof
    assume "startsWith (c # cs) t"
    then have "startsWith (map f (c # cs)) (map f t)" by (rule startsWith_map)
    then show ?thesis by simp
  next
    assume "includesStr cs t"
    with Cons.IH show ?thesis by simp
  qed
qed

lemma lower_fixed_subset:
  assumes "toLowerCase k = k" and "set b \<subseteq> set k"
  shows "toLowerCase b = b"
proof -
  from assms(1) have "\<forall>c \<in> set k. lowerChar c = c"
    by (simp add: toLowerCase_def map_idI list_eq_iff_nth_eq) (metis in_set_conv_nth)
  with assms(2) have "\<forall>c \<in> set b. lowerChar c = c" by blast
  then show ?thesis by (simp add: toLowerCase_def map_idI)
qed

lemma not_brand_word:
  assumes nb: "\<not> isBrandWord k (toLowerCase b) bn" and low: "toLowerCase k = k"
  shows "k \<noteq> b \<and> \<not> includesStr k b \<and> \<not> includesStr b k
       \<and> k \<noteq> toLowerCase b \<and> \<not> includesStr k (toLowerCase b) \<and> \<not> includesStr (toLowerCase b) k"
proof -
  from nb have l1: "k \<noteq> toLowerCase b" and l2: "\<not> includesStr k (toLowerCase b)"
    and l3: "\<not> includesStr (toLowerCase b) k" by (auto simp: isBrandWord_def)
  have "k \<noteq> b"
  proof
    assume "k = b"
    with low l1 show False by simp
  qed
  moreover have "\<not> includesStr k b"
  proof
    assume i: "includesStr k b"
    then have "set b \<subseteq> set k" by (rule includesStr_set)
    with low have "toLowerCase b = b" by (rule lower_fixed_subset)
    with i l2 show False by simp
  qed
  moreover have "\<not> includesStr b k"
  proof
    assume "includesStr b k"
    then have "includesStr (map lowerChar b) (map lowerChar k)" by (rule includesStr_map)
    with low l3 show False by (simp add: toLowerCase_def)
  qed
  ultimately show ?thesis using l1 l2 l3 by blast
qed

text \<open>
  C9.  A keyword of the generator that is a single token (it has no blank; the compound
  keywords are two words joined by a blank) occurs among the tokens of the ad texts at
  least \<open>max(3, 0.5% of the number of ads)\<close> times, has at least four characters, is not
  purely numeric, is neither a stop word nor a generic ad word, and neither equals,
  contains nor is contained in the brand name, as it is given and in lower case.
\<close>

theorem single_keywords_filtered:
  assumes k: "k \<in> set (kr_keywords (generateKeywords wl ads brandName maxKeywords))"
    and single: "CHR '' '' \<notin> set k"
  shows "3 \<le> occurrences ads k \<and> length ads \<le> 200 * occurrences ads k
    \<and> minFrequency (length ads) \<le> occurrences ads k
    \<and> 4 \<le> length k \<and> \<not> allDigits k
    \<and> \<not> isStopWord wl k \<and> \<not> isGenericAdWord wl k
    \<and> k \<noteq> brandName \<and> \<not> includesStr k brandName \<and> \<not> includesStr brandName k
    \<and> k \<noteq> toLowerCase brandName \<and> \<not> includesStr k (toLowerCase brandName)
    \<and> \<not> includesStr (toLowerCase brandName) k"
proof -
  let ?bl = "toLowerCase brandName"
  let ?bn = "stripSeparators ?bl"
  let ?singles = "singleKeywords wl ads brandName maxKeywords"
  let ?cks = "generateCompoundKeywords wl ads ?bl ?bn"
  from k have "k \<in> set (fst (fold (addCompound maxKeywords) ?cks
      (fold (addSingle maxKeywords) ?singles ([], []))))"
    by (simp add: generateKeywords_def Let_def)
  then have "k \<in> set (fst (fold (addSingle maxKeywords) ?singles ([], []))) \<or> k \<in> ks_keyword ` set ?cks"
    by (rule addCompound_keys)
  moreover have "k \<notin> ks_keyword ` set ?cks" using single compound_blank by blast
  ultimately have "k \<in> set (fst (fold (addSingle maxKeywords) ?singles ([], [])))" by blast
  then have "k \<in> ks_keyword ` set ?singles" by (auto dest: addSingle_keys)
  then obtain ks where "ks \<in> set ?singles" "k = ks_keyword ks" by blast
  with single_entry obtain e where e: "(k, e) \<in> set (fold (scoreAd wl ?bl ?bn) ads [])"
      and f: "minFrequency (length ads) \<le> frequency e" by blast
  from score_entry [OF e] have ok: "wordOk wl ?bl ?bn k" and low: "toLowerCase k = k"
    and fr: "frequency e = occurrences ads k" by blast+
  from f fr have m: "minFrequency (length ads) \<le> occurrences ads k" by simp
  then have "3 \<le> occurrences ads k" and "length ads \<le> 200 * occurrences ads k"
    by (auto simp: minFrequency_def)
  moreover from ok have nb: "\<not> isBrandWord k ?bl ?bn" by (simp add: wordOk_def)
  note not_brand_word [OF nb low]
  ultimately show ?thesis using m ok by (simp add: wordOk_def)
qed

lemma exBrandAds_keywords:
  "kr_keywords (generateKeywords exWords exBrandAds ''Glow25'' 10) = [''collagen'']
   \<and> occurrences exBrandAds ''collagen'' = 3"
  by code_simp

theorem single_keywords_filtered_witness:
  "''collagen'' \<in> set (kr_keywords (generateKeywords exWords exBrandAds ''Glow25'' 10))
   \<and> CHR '' '' \<notin> set ''collagen''
   \<and> 3 \<le> occurrences exBrandAds ''collagen''
   \<and> \<not> isStopWord exWords ''collagen''
   \<and> \<not> includesStr ''collagen'' ''Glow25''"
proof -
  have h1: "''collagen'' \<in> set (kr_keywords (generateKeywords exWords exBrandAds ''Glow25'' 10))"
    using exBrandAds_keywords by simp
  have h2: "CHR '' '' \<notin> set ''collagen''" by simp
  from single_keywords_filtered [OF h1 h2] h1 h2 show ?thesis by blast
qed

lemma findBrandDomain_no_ads:
  "brand_domain (fst (findBrandDomain w brandName [])) = None
   \<and> snd (findBrandDomain w brandName []) = []"
  by (simp add: findBrandDomain_def)

text \<open>
  C5.  If the search for the brand name returns no ad, the pipeline ends after this one
  call with the error response: \<open>success\<close> is false, the error text begins with
  \<open>Could not find brand domain\<close>, and all page and domain lists are empty.
\<close>

theorem no_ads_no_brand_domain:
  assumes "fetch_all_ads w (brandSearch brandName opts) = Inr []"
  shows "(let r = fst (discoverBrand w wl brandName opts) in
            r = makeErrorResponse brandName ''Could not find brand domain from Meta ads''
            \<and> \<not> success r
            \<and> (\<exists>e. error r = Some e \<and> startsWith e ''Could not find brand domain'')
            \<and> official r = [] \<and> third_party r = []
            \<and> presell r = [] \<and> redirect r = [] \<and> final_shop r = [] \<and> all_domains r = []
            \<and> domain_urls r = [] \<and> top_landing_pages r = [] \<and> presell_chains r = [])
         \<and> snd (discoverBrand w wl brandName opts) = [SearchAds (brandSearch brandName opts)]"
proof -
  have r: "discoverBrand w wl brandName opts
             = (makeErrorResponse brandName noBrandDomain, [SearchAds (brandSearch brandName opts)])"
    using assms findBrandDomain_no_ads [of w brandName]
    by (simp add: discoverBrand_def Let_def)
  have s: "startsWith noBrandDomain ''Could not find brand domain''"
    by code_simp
  show ?thesis
    using s by (simp add: r Let_def makeErrorResponse_def noBrandDomain_def)
qed

theorem no_ads_no_brand_domain_witness:
  "fetch_all_ads exWeb (brandSearch ''Glow25'' runOpts) = Inr []
   \<and> fst (discoverBrand exWeb exWords ''Glow25'' runOpts)
       = makeErrorResponse ''Glow25'' ''Could not find brand domain from Meta ads''
   \<and> \<not> success (fst (discoverBrand exWeb exWords ''Glow25'' runOpts))
   \<and> third_party (fst (discoverBrand exWeb exWords ''Glow25'' runOpts)) = []
   \<and> snd (discoverBrand exWeb exWords ''Glow25'' runOpts)
       = [SearchAds (brandSearch ''Glow25'' runOpts)]"
proof -
  have f: "fetch_all_ads exWeb (brandSearch ''Glow25'' runOpts) = Inr []"
    by (simp add: exWeb_def)
  show ?thesis
    using no_ads_no_brand_domain [OF f, of exWords] f unfolding Let_def by blast
qed

text \<open>
  The handler of \<open>POST /api/discover\<close> answers a request without a brand name, or with
  the empty one, with the status 400 and \<open>brand is required\<close>; it changes nothing and
  makes no outbound call.
\<close>

lemma discover_rejects_missing_brand:
  assumes "req_method req = POST" and "req_path req = ''/api/discover''"
    and "verifyAuth env req" and "\<not> truthy (rq_brand (req_body req))"
  shows "handleRequest env w wl st req
           = ((jsonResponse (ErrorMessage ''brand is required'') 400, st), [])"
  using assms
  by (auto simp: handleRequest_def handleDiscover_def truthy_def split: option.splits)

text \<open>
  C7.  The handler of \<open>POST /api/batch\<close> does not look at the brand names of its entries.
  A batch with one entry whose brand name is empty is accepted with the status 202, and
  its job runs the pipeline, which begins with the search of the ad library for the
  empty name: an outbound call is made and no input error is reported.
\<close>

theorem batch_request_searches_for_empty_brand:
  "fst (fst (handleRequest exEnv exWeb exWords idleWorker (batchRequest [Some []])))
     = jsonResponse (BatchQueued 1 [''job_0''] 0) 202
   \<and> snd (handleRequest exEnv exWeb exWords idleWorker (batchRequest [Some []]))
     = [SearchAds \<lparr>search_terms = [], ad_reached_countries = [''DE''],
                   search_type = ''KEYWORD_EXACT_PHRASE'', ad_active_status = None,
                   max_results = 300\<rparr>]"
  by code_simp

end
